theory Spec2Isabelle
  imports Complex_Main "HOL-Library.List_Lexorder" "HOL-Library.Char_ord"
begin

section \<open>The gold-price history hook: \<open>src/hooks/useGoldHistory.ts\<close>\<close>

text \<open>
  The hook \<open>useGoldHistory\<close> owns two pieces of React state, \<open>loading\<close> (the busy
  flag) and \<open>data\<close> (the published series), and one asynchronous entry point,
  \<open>fetchAndSyncHistory(fromDate, toDate)\<close>. The entry point talks to three
  collaborators that are not part of the repository: the date library, the document
  store and the remote provider. Their answers are the fields of an environment
  \<open>env\<close>; everything the entry point itself does (the order of its calls, its
  branches, what it publishes and what it stages for writing) is translated line by
  line. Every externally visible action is appended to a trace, so that statements
  such as "no remote call" or "published before the write" are statements about a list.
\<close>

subsection \<open>Data\<close>

text \<open>
  \<open>interface HistoryItem\<close>, at the level of its TypeScript type: every element of
  a series has the four fields. The price fields are JavaScript numbers; the only
  operation the code applies to them is the comparison \<open>>\<close> against the
  threshold, which on finite numbers is the comparison of the reals they denote.
\<close>

record HistoryItem =
  date :: string
  type :: string
  buy :: real
  sell :: real

text \<open>The object handed to \<open>batch.set\<close>: the item's fields, \<open>provider\<close> and \<open>syncedAt\<close>.\<close>

record stored_doc = HistoryItem +
  provider :: string
  syncedAt :: string

text \<open>A JavaScript \<open>Date\<close>: either the invalid date or a time value in milliseconds.\<close>

datatype jsdate = InvalidDate | Date int

text \<open>The exceptions that can occur inside the flow, by constructor name and message.\<close>

datatype error =
    RangeError string
  | TypeError string
  | SyntaxError string
  | Error string
  | FirebaseError string

text \<open>
  An awaited promise resolves, rejects, or never settles. The code has no timeout, so
  an await on a promise that never settles suspends the invocation for good.
\<close>

datatype 'a promise = Resolved 'a | Rejected error | Pending

text \<open>
  What \<open>res.json()\<close> can yield, as far as the code looks at it: the value \<open>null\<close>
  (reading \<open>json.success\<close> then throws a \<open>TypeError\<close>), or a value with the
  truthiness of its \<open>success\<close> property and, when \<open>Array.isArray(json.data)\<close>
  holds, the array.
\<close>

datatype payload = JNull | JValue bool "HistoryItem list option"

record response =
  ok :: bool
  json :: "payload promise"

type_synonym batch = "(string \<times> stored_doc) list"

text \<open>The messages of \<open>console.log\<close>, with the numbers they interpolate.\<close>

datatype log_msg = CacheHit nat | CacheMiss | SyncSaved nat

datatype event =
    SetLoading bool
  | SetData "HistoryItem list"
  | GetDocs string string
  | Fetch string
  | BatchSet string stored_doc
  | BatchCommit batch
  | ConsoleWarn real
  | ConsoleLog log_msg
  | ConsoleError error

text \<open>
  The environment of one invocation. \<open>MAX_VALID_GOLD_PRICE\<close> is imported from
  \<open>@/lib/constants\<close>, which is not among the sources, so it is a parameter. The
  date functions are those of \<open>date-fns\<close> and of \<open>Date\<close> on valid dates;
  \<open>lib_getDocs lo hi\<close> is the store's answer to the range query with bounds
  \<open>lo\<close> and \<open>hi\<close>, \<open>lib_fetch url\<close> the provider's answer,
  \<open>lib_doc i\<close> the exception with which \<open>doc(db, "gold_price_history", i)\<close>
  refuses the identifier \<open>i\<close> (one that does not name a document path), if it
  does, \<open>lib_commit b\<close> the store's answer to committing the batch \<open>b\<close>,
  and \<open>now k\<close> the text of \<open>new Date().toISOString()\<close> at its
  \<open>k\<close>-th evaluation inside the staging loop.
\<close>

record env =
  MAX_VALID_GOLD_PRICE :: real
  lib_parse :: "string \<Rightarrow> jsdate"
  lib_startOfDay :: "int \<Rightarrow> int"
  lib_endOfDay :: "int \<Rightarrow> int"
  lib_toISOString :: "int \<Rightarrow> string"
  lib_newDate :: "string \<Rightarrow> jsdate"
  lib_format :: "int \<Rightarrow> string"
  lib_getDocs :: "string \<Rightarrow> string \<Rightarrow> HistoryItem list promise"
  lib_fetch :: "string \<Rightarrow> response promise"
  lib_doc :: "string \<Rightarrow> error option"
  lib_commit :: "batch \<Rightarrow> unit promise"
  now :: "nat \<Rightarrow> string"

text \<open>The hook's state (\<open>useState\<close>) and the trace of actions so far.\<close>

record state =
  loading :: bool
  data :: "HistoryItem list"
  trace :: "event list"

text \<open>How a piece of code ends: it returns, it throws, or it never resumes.\<close>

datatype completion = Returned | Threw error | Stalled

subsection \<open>The primitives\<close>

definition emit :: "event \<Rightarrow> state \<Rightarrow> state" where
  "emit ev s = s\<lparr>trace := trace s @ [ev]\<rparr>"

definition setLoading :: "bool \<Rightarrow> state \<Rightarrow> state" where
  "setLoading b s = emit (SetLoading b) (s\<lparr>loading := b\<rparr>)"

definition setData :: "HistoryItem list \<Rightarrow> state \<Rightarrow> state" where
  "setData xs s = emit (SetData xs) (s\<lparr>data := xs\<rparr>)"

text \<open>\<open>date-fns\<close> maps the invalid date to itself.\<close>

definition startOfDay :: "env \<Rightarrow> jsdate \<Rightarrow> jsdate" where
  "startOfDay e d = (case d of InvalidDate \<Rightarrow> InvalidDate | Date t \<Rightarrow> Date (lib_startOfDay e t))"

definition endOfDay :: "env \<Rightarrow> jsdate \<Rightarrow> jsdate" where
  "endOfDay e d = (case d of InvalidDate \<Rightarrow> InvalidDate | Date t \<Rightarrow> Date (lib_endOfDay e t))"

text \<open>\<open>Date.prototype.toISOString\<close> throws a \<open>RangeError\<close> on the invalid date.\<close>

definition toISOString :: "env \<Rightarrow> jsdate \<Rightarrow> error + string" where
  "toISOString e d =
     (case d of InvalidDate \<Rightarrow> Inl (RangeError ''Invalid time value'')
      | Date t \<Rightarrow> Inr (lib_toISOString e t))"

text \<open>\<open>format(dateObj, 'yyyyMMdd_HHmmss')\<close> throws a \<open>RangeError\<close> on the invalid date.\<close>

definition format :: "env \<Rightarrow> jsdate \<Rightarrow> error + string" where
  "format e d =
     (case d of InvalidDate \<Rightarrow> Inl (RangeError ''Invalid time value'')
      | Date t \<Rightarrow> Inr (lib_format e t))"

subsection \<open>The integrity check (line 42)\<close>

definition hasOutliers :: "env \<Rightarrow> HistoryItem list \<Rightarrow> bool" where
  "hasOutliers e cachedData =
     list_ex (\<lambda>item. buy item > MAX_VALID_GOLD_PRICE e \<or> sell item > MAX_VALID_GOLD_PRICE e)
       cachedData"

subsection \<open>The cache write (lines 68 to 89)\<close>

text \<open>Lines 73 to 76: the identifier of the document written for an item.\<close>

definition docId :: "env \<Rightarrow> HistoryItem \<Rightarrow> error + string" where
  "docId e item =
     (case format e (lib_newDate e (date item)) of
        Inl err \<Rightarrow> Inl err
      | Inr dateKey \<Rightarrow> Inr (type item @ ''_'' @ dateKey))"

text \<open>Lines 79 to 83: the object written for an item, \<open>k\<close> items having been staged.\<close>

definition stored :: "env \<Rightarrow> nat \<Rightarrow> HistoryItem \<Rightarrow> stored_doc" where
  "stored e k item =
     \<lparr>date = date item, type = type item, buy = buy item, sell = sell item,
      provider = ''SJC'', syncedAt = now e k\<rparr>"

text \<open>
  \<open>items.forEach\<close>, lines 72 to 85, with the loop's variables \<open>count\<close> and
  \<open>batch\<close>. For each item: the identifier (which throws on an invalid date), the
  document reference (which throws on an identifier \<open>doc\<close> refuses), then the
  staged write and the count. An exception thrown for one item leaves the loop; the
  items staged before it stay staged, and nothing is committed.
\<close>

fun forEach :: "env \<Rightarrow> HistoryItem list \<Rightarrow> nat \<Rightarrow> batch \<Rightarrow> state \<Rightarrow> (error + nat \<times> batch) \<times> state" where
  "forEach e [] count b s = (Inr (count, b), s)"
| "forEach e (item # items) count b s =
     (case docId e item of
        Inl err \<Rightarrow> (Inl err, s)
      | Inr i \<Rightarrow>
          (case lib_doc e i of
             Some err \<Rightarrow> (Inl err, s)
           | None \<Rightarrow>
               forEach e items (count + 1) (b @ [(i, stored e count item)])
                 (emit (BatchSet i (stored e count item)) s)))"

definition sync :: "env \<Rightarrow> HistoryItem list \<Rightarrow> state \<Rightarrow> completion \<times> state" where
  "sync e items s =
     (case forEach e items 0 [] s of
        (Inl err, s1) \<Rightarrow> (Threw err, s1)
      | (Inr (count, b), s1) \<Rightarrow>
          (let s2 = emit (BatchCommit b) s1 in
           case lib_commit e b of
             Pending \<Rightarrow> (Stalled, s2)
           | Rejected err \<Rightarrow> (Threw err, s2)
           | Resolved u \<Rightarrow> (Returned, emit (ConsoleLog (SyncSaved count)) s2)))"

subsection \<open>The remote refill (lines 55 to 89)\<close>

definition url :: "string \<Rightarrow> string \<Rightarrow> string" where
  "url fromDate toDate = ''/api/sjc/formatted?fromDate='' @ fromDate @ ''&toDate='' @ toDate"

definition refill :: "env \<Rightarrow> string \<Rightarrow> string \<Rightarrow> state \<Rightarrow> completion \<times> state" where
  "refill e fromDate toDate s =
     (let s1 = emit (Fetch (url fromDate toDate)) (emit (ConsoleLog CacheMiss) s) in
      case lib_fetch e (url fromDate toDate) of
        Pending \<Rightarrow> (Stalled, s1)
      | Rejected err \<Rightarrow> (Threw err, s1)
      | Resolved res \<Rightarrow>
          if \<not> ok res then (Threw (Error ''Failed to fetch history''), s1)
          else
            (case json res of
               Pending \<Rightarrow> (Stalled, s1)
             | Rejected err \<Rightarrow> (Threw err, s1)
             | Resolved JNull \<Rightarrow>
                 (Threw (TypeError ''Cannot read properties of null''), s1)
             | Resolved (JValue success arr) \<Rightarrow>
                 if \<not> success then (Returned, s1)
                 else
                   (case arr of
                      None \<Rightarrow> (Returned, s1)
                    | Some items \<Rightarrow>
                        (let s2 = setData items s1 in
                         if length items > 0 then sync e items s2 else (Returned, s2)))))"

subsection \<open>The body of the \<open>try\<close> block (lines 21 to 89)\<close>

text \<open>
  Lines 22 to 31. \<open>parse\<close> does not throw on a string it cannot read: it yields the
  invalid date, which \<open>startOfDay\<close> and \<open>endOfDay\<close> pass on, and the exception
  comes from \<open>toISOString\<close> while the query is being built, the lower bound first.
\<close>

definition bounds :: "env \<Rightarrow> string \<Rightarrow> string \<Rightarrow> error + string \<times> string" where
  "bounds e fromDate toDate =
     (let fromD = startOfDay e (lib_parse e fromDate);
          toD = endOfDay e (lib_parse e toDate) in
      case toISOString e fromD of
        Inl err \<Rightarrow> Inl err
      | Inr lo \<Rightarrow>
          (case toISOString e toD of
             Inl err \<Rightarrow> Inl err
           | Inr hi \<Rightarrow> Inr (lo, hi)))"

definition tryBlock :: "env \<Rightarrow> string \<Rightarrow> string \<Rightarrow> state \<Rightarrow> completion \<times> state" where
  "tryBlock e fromDate toDate s =
     (case bounds e fromDate toDate of
        Inl err \<Rightarrow> (Threw err, s)
      | Inr (lo, hi) \<Rightarrow>
          (let s1 = emit (GetDocs lo hi) s in
           case lib_getDocs e lo hi of
             Pending \<Rightarrow> (Stalled, s1)
           | Rejected err \<Rightarrow> (Threw err, s1)
           | Resolved docs \<Rightarrow>
               if docs \<noteq> [] then
                 (let cachedData = docs in
                  if hasOutliers e cachedData then
                    refill e fromDate toDate (emit (ConsoleWarn (MAX_VALID_GOLD_PRICE e)) s1)
                  else if length cachedData > 0 then
                    (Returned,
                     setLoading False
                       (setData cachedData
                          (emit (ConsoleLog (CacheHit (length cachedData))) s1)))
                  else refill e fromDate toDate s1)
               else refill e fromDate toDate s1))"

subsection \<open>The entry point (lines 18 to 96)\<close>

text \<open>
  Lines 91 to 95: \<open>catch\<close> logs whatever the block threw, and \<open>finally\<close>
  clears the flag on both ways out. A block that never resumes reaches neither.
\<close>

definition catchFinally :: "completion \<times> state \<Rightarrow> completion \<times> state" where
  "catchFinally r =
     (case r of
        (Returned, s1) \<Rightarrow> (Returned, setLoading False s1)
      | (Threw err, s1) \<Rightarrow> (Returned, setLoading False (emit (ConsoleError err) s1))
      | (Stalled, s1) \<Rightarrow> (Stalled, s1))"

definition fetchAndSyncHistory :: "env \<Rightarrow> string \<Rightarrow> string \<Rightarrow> state \<Rightarrow> completion \<times> state" where
  "fetchAndSyncHistory e fromDate toDate s =
     catchFinally (tryBlock e fromDate toDate (setLoading True s))"

subsection \<open>The document store's write interface\<close>

text \<open>
  Modelled from the spec: the store's batch commit, which belongs to the Firestore
  client and not to the repository. The spec describes it as an atomic multi-document
  upsert keyed by caller-supplied identifiers: a collection holds at most one document
  per identifier, and a committed batch puts each staged object under its identifier,
  in staging order, replacing what was there.
\<close>

type_synonym store = "string \<rightharpoonup> stored_doc"

definition batch_commit :: "store \<Rightarrow> batch \<Rightarrow> store" where
  "batch_commit st b = fold (\<lambda>(i, d) m. m(i \<mapsto> d)) b st"

subsection \<open>Vocabulary for the properties\<close>

text \<open>Classes of trace events: the remote call, the cache writes, the publications.\<close>

fun is_remote :: "event \<Rightarrow> bool" where
  "is_remote (Fetch u) = True"
| "is_remote ev = False"

fun is_write :: "event \<Rightarrow> bool" where
  "is_write (BatchSet i d) = True"
| "is_write (BatchCommit b) = True"
| "is_write ev = False"

fun is_publish :: "event \<Rightarrow> bool" where
  "is_publish (SetData xs) = True"
| "is_publish ev = False"

fun is_read :: "event \<Rightarrow> bool" where
  "is_read (GetDocs lo hi) = True"
| "is_read ev = False"

text \<open>The batches handed to \<open>batch.commit()\<close> in a trace, in order.\<close>

fun committed :: "event list \<Rightarrow> batch list" where
  "committed [] = []"
| "committed (BatchCommit b # evs) = b # committed evs"
| "committed (ev # evs) = committed evs"

text \<open>The events of the cache write: staging, the commit and its log line.\<close>

fun is_sync_event :: "event \<Rightarrow> bool" where
  "is_sync_event (BatchSet i d) = True"
| "is_sync_event (BatchCommit b) = True"
| "is_sync_event (ConsoleLog (SyncSaved n)) = True"
| "is_sync_event ev = False"

text \<open>
  The array the provider answers with, when its answer passes the checks of lines 59
  and 62: a 2xx status, a truthy \<open>success\<close> and an array under \<open>data\<close>.
\<close>

definition provider_items :: "env \<Rightarrow> string \<Rightarrow> string \<Rightarrow> HistoryItem list option" where
  "provider_items e fromDate toDate =
     (case lib_fetch e (url fromDate toDate) of
        Resolved res \<Rightarrow>
          (if ok res then
             (case json res of
                Resolved (JValue success arr) \<Rightarrow> (if success then arr else None)
              | _ \<Rightarrow> None)
           else None)
      | _ \<Rightarrow> None)"

text \<open>
  A provider failure in the sense of the spec: a non-2xx status, or a payload whose
  \<open>success\<close> flag is false or whose \<open>data\<close> is not an array.
\<close>

definition provider_failure :: "response \<Rightarrow> bool" where
  "provider_failure res =
     (\<not> ok res \<or>
      (case json res of
         Resolved (JValue success arr) \<Rightarrow> \<not> success \<or> arr = None
       | _ \<Rightarrow> False))"

subsection \<open>What the staging loop and the phases emit\<close>

text \<open>
  An item passes lines 73 to 77 when its date is valid and \<open>doc\<close> accepts its
  identifier; \<open>staged e c items\<close> are the writes the loop stages, from the count
  \<open>c\<close>, up to the first item that does not pass.
\<close>

definition stageable :: "env \<Rightarrow> HistoryItem \<Rightarrow> bool" where
  "stageable e item =
     (case docId e item of Inl err \<Rightarrow> False | Inr i \<Rightarrow> lib_doc e i = None)"

fun staged :: "env \<Rightarrow> nat \<Rightarrow> HistoryItem list \<Rightarrow> batch" where
  "staged e c [] = []"
| "staged e c (item # items) =
     (case docId e item of
        Inl err \<Rightarrow> []
      | Inr i \<Rightarrow>
          (case lib_doc e i of
             Some err \<Rightarrow> []
           | None \<Rightarrow> (i, stored e c item) # staged e (c + 1) items))"

text \<open>
  The events of each phase as functions of the environment: the cache write, the
  refill, the handlers of lines 91 to 95, and the opening of an invocation that misses
  the cache. The lemmas below show that the phases emit exactly these.
\<close>

definition sync_events :: "env \<Rightarrow> HistoryItem list \<Rightarrow> event list" where
  "sync_events e items =
     map (\<lambda>(i, d). BatchSet i d) (staged e 0 items) @
     (if list_all (stageable e) items then
        BatchCommit (staged e 0 items) #
        (case lib_commit e (staged e 0 items) of
           Resolved u \<Rightarrow> [ConsoleLog (SyncSaved (length items))]
         | Rejected err \<Rightarrow> []
         | Pending \<Rightarrow> [])
      else [])"

definition refill_events :: "env \<Rightarrow> string \<Rightarrow> string \<Rightarrow> event list" where
  "refill_events e fromDate toDate =
     ConsoleLog CacheMiss # Fetch (url fromDate toDate) #
     (case provider_items e fromDate toDate of
        None \<Rightarrow> []
      | Some items \<Rightarrow> SetData items # (if length items > 0 then sync_events e items else []))"

definition catch_events :: "completion \<Rightarrow> event list" where
  "catch_events c =
     (case c of Returned \<Rightarrow> [SetLoading False]
      | Threw err \<Rightarrow> [ConsoleError err, SetLoading False]
      | Stalled \<Rightarrow> [])"

definition miss_state :: "env \<Rightarrow> string \<Rightarrow> string \<Rightarrow> HistoryItem list \<Rightarrow> state \<Rightarrow> state" where
  "miss_state e lo hi docs s =
     (if docs = [] then emit (GetDocs lo hi) (setLoading True s)
      else emit (ConsoleWarn (MAX_VALID_GOLD_PRICE e)) (emit (GetDocs lo hi) (setLoading True s)))"

definition miss_events :: "env \<Rightarrow> string \<Rightarrow> string \<Rightarrow> HistoryItem list \<Rightarrow> event list" where
  "miss_events e lo hi docs =
     SetLoading True # GetDocs lo hi #
     (if docs = [] then [] else [ConsoleWarn (MAX_VALID_GOLD_PRICE e)])"

subsection \<open>The date parser of line 22\<close>

text \<open>
  \<open>parse(str, 'dd/MM/yyyy', new Date())\<close> belongs to the \<open>date-fns\<close> library,
  which is not part of the repository; the flow takes it as the parameter
  \<open>lib_parse\<close>. What follows is the behaviour of the library for this format
  string, used for the sample environment and for telling which strings the parser
  rejects. The parser reads the format token by token: \<open>dd\<close> and \<open>MM\<close> each
  take one or two digits, \<open>yyyy\<close> takes one to four (a token of \<open>n\<close> letters
  reads at least one and at most \<open>n\<close> digits), the slashes are literal, and what
  is left of the string must be white space. The year must be positive, the month
  between 1 and 12 and the day one of the days of that month. The result is midnight of
  that calendar day in the zone of the browser, given by \<open>zone\<close>.
\<close>

definition is_digit :: "char \<Rightarrow> bool" where
  "is_digit c = (c \<in> set ''0123456789'')"

definition is_space :: "char \<Rightarrow> bool" where
  "is_space c = (c = CHR '' '' \<or> (9 \<le> (of_char c :: nat) \<and> (of_char c :: nat) \<le> 13))"

fun take_digits :: "nat \<Rightarrow> string \<Rightarrow> string \<times> string" where
  "take_digits n [] = ([], [])"
| "take_digits n (c # cs) =
     (if 0 < n \<and> is_digit c
      then (case take_digits (n - 1) cs of (ds, rest) \<Rightarrow> (c # ds, rest))
      else ([], c # cs))"

definition parseInt :: "string \<Rightarrow> nat" where
  "parseInt ds = foldl (\<lambda>a c. 10 * a + (of_char c - 48)) 0 ds"

definition parseNDigits :: "nat \<Rightarrow> string \<Rightarrow> (nat \<times> string) option" where
  "parseNDigits n str =
     (case take_digits n str of
        ([], rest) \<Rightarrow> None
      | (ds, rest) \<Rightarrow> Some (parseInt ds, rest))"

definition literal_slash :: "string \<Rightarrow> string option" where
  "literal_slash str =
     (case str of [] \<Rightarrow> None | c # cs \<Rightarrow> if c = CHR ''/'' then Some cs else None)"

definition isLeapYearIndex :: "nat \<Rightarrow> bool" where
  "isLeapYearIndex year = (year mod 400 = 0 \<or> (year mod 4 = 0 \<and> year mod 100 \<noteq> 0))"

definition days_in_month :: "nat \<Rightarrow> nat \<Rightarrow> nat" where
  "days_in_month year month =
     (if month = 2 then (if isLeapYearIndex year then 29 else 28)
      else if month \<in> {4, 6, 9, 11} then 30 else 31)"

text \<open>The day, month and year the parser reads, or nothing when it rejects the string.\<close>

definition datefns_fields :: "string \<Rightarrow> (nat \<times> nat \<times> nat) option" where
  "datefns_fields str =
     (case parseNDigits 2 str of
        None \<Rightarrow> None
      | Some (d, s1) \<Rightarrow>
     (case literal_slash s1 of
        None \<Rightarrow> None
      | Some s2 \<Rightarrow>
     (case parseNDigits 2 s2 of
        None \<Rightarrow> None
      | Some (m, s3) \<Rightarrow>
     (case literal_slash s3 of
        None \<Rightarrow> None
      | Some s4 \<Rightarrow>
     (case parseNDigits 4 s4 of
        None \<Rightarrow> None
      | Some (y, s5) \<Rightarrow>
          if list_all is_space s5 \<and> 0 < y \<and> 1 \<le> m \<and> m \<le> 12 \<and>
             1 \<le> d \<and> d \<le> days_in_month y m
          then Some (d, m, y) else None)))))"

definition datefns_parse :: "(nat \<Rightarrow> nat \<Rightarrow> nat \<Rightarrow> int) \<Rightarrow> string \<Rightarrow> jsdate" where
  "datefns_parse zone str =
     (case datefns_fields str of
        None \<Rightarrow> InvalidDate
      | Some (d, m, y) \<Rightarrow> Date (zone y m d))"

text \<open>
  The format of the caller-facing interface read to the letter: two digits, a slash,
  two digits, a slash, four digits, and nothing else.
\<close>

definition matches_ddMMyyyy :: "string \<Rightarrow> bool" where
  "matches_ddMMyyyy str =
     (case str of
        [d1, d2, s1, m1, m2, s2, y1, y2, y3, y4] \<Rightarrow>
          list_all is_digit [d1, d2, m1, m2, y1, y2, y3, y4] \<and> s1 = CHR ''/'' \<and> s2 = CHR ''/''
      | _ \<Rightarrow> False)"

subsection \<open>A sample environment\<close>

text \<open>
  The scenario of the spec: the range 01/01/2026 to 05/01/2026, three quotations of
  one series quoted at nine in the morning, the threshold at 200,000,000. The browser
  is seven hours ahead of UTC: \<open>parse\<close> is the parser above with midnight taken in
  that zone, the other date functions are tabulated on the dates of the scenario; the
  store and the provider answer with the arguments of \<open>sample_env\<close>.
  \<open>series p\<close> is the series whose second quotation sells at \<open>p\<close>;
  \<open>idle\<close> is a hook that has published nothing yet, \<open>shown\<close> one that
  shows an earlier result.
\<close>

definition idle :: state where
  "idle = \<lparr>loading = False, data = [], trace = []\<rparr>"

definition quote :: "string \<Rightarrow> real \<Rightarrow> real \<Rightarrow> HistoryItem" where
  "quote d b s = \<lparr>date = d, type = ''bar'', buy = b, sell = s\<rparr>"

definition series :: "real \<Rightarrow> HistoryItem list" where
  "series p =
     [quote ''2026-01-02T02:00:00.000Z'' 90100000 92100000,
      quote ''2026-01-03T02:00:00.000Z'' 90100000 p,
      quote ''2026-01-05T02:00:00.000Z'' 90100000 92100000]"

definition shown :: state where
  "shown = \<lparr>loading = False, data = series 92100000, trace = []\<rparr>"

definition success :: "HistoryItem list \<Rightarrow> response promise" where
  "success items = Resolved \<lparr>ok = True, json = Resolved (JValue True (Some items))\<rparr>"

text \<open>Days from 1 January 1970 to a day of the proleptic Gregorian calendar.\<close>

definition epoch_days :: "nat \<Rightarrow> nat \<Rightarrow> nat \<Rightarrow> int" where
  "epoch_days year month day =
     (let y = (if month \<le> 2 then int year - 1 else int year);
          era = y div 400;
          yoe = y - era * 400;
          mp = (if month > 2 then int month - 3 else int month + 9);
          doy = (153 * mp + 2) div 5 + int day - 1;
          doe = yoe * 365 + yoe div 4 - yoe div 100 + doy
      in era * 146097 + doe - 719468)"

definition zone_midnight :: "int \<Rightarrow> nat \<Rightarrow> nat \<Rightarrow> nat \<Rightarrow> int" where
  "zone_midnight offset year month day = epoch_days year month day * 86400000 - offset"

text \<open>\<open>toISOString\<close> and \<open>new Date\<close> do not depend on the zone of the browser.\<close>

definition sample_toISOString :: "int \<Rightarrow> string" where
  "sample_toISOString t =
     (if t = 1767200400000 then ''2025-12-31T17:00:00.000Z''
      else if t = 1767632399999 then ''2026-01-05T16:59:59.999Z''
      else if t = 1767225600000 then ''2026-01-01T00:00:00.000Z''
      else if t = 1767657599999 then ''2026-01-05T23:59:59.999Z''
      else [])"

definition sample_newDate :: "string \<Rightarrow> jsdate" where
  "sample_newDate str =
     (if str = ''2026-01-02T02:00:00.000Z'' then Date 1767319200000
      else if str = ''2026-01-03T02:00:00.000Z'' then Date 1767405600000
      else if str = ''2026-01-05T02:00:00.000Z'' then Date 1767578400000
      else InvalidDate)"

definition sample_env :: "HistoryItem list promise \<Rightarrow> response promise \<Rightarrow> unit promise \<Rightarrow> env" where
  "sample_env cached answer outcome =
     \<lparr>MAX_VALID_GOLD_PRICE = 200000000,
      lib_parse = datefns_parse (zone_midnight 25200000),
      lib_startOfDay = (\<lambda>t. t - (t + 25200000) mod 86400000),
      lib_endOfDay = (\<lambda>t. t - (t + 25200000) mod 86400000 + 86399999),
      lib_toISOString = sample_toISOString,
      lib_newDate = sample_newDate,
      lib_format = (\<lambda>t. if t = 1767319200000 then ''20260102_090000''
                         else if t = 1767405600000 then ''20260103_090000''
                         else if t = 1767578400000 then ''20260105_090000''
                         else []),
      lib_getDocs = (\<lambda>lo hi. cached),
      lib_fetch = (\<lambda>u. answer),
      lib_doc = (\<lambda>i. None),
      lib_commit = (\<lambda>b. outcome),
      now = (\<lambda>k. ''2026-01-06T08:00:00.000Z'')\<rparr>"

text \<open>
  The same environment for a browser whose zone is UTC: \<open>parse\<close>,
  \<open>startOfDay\<close>, \<open>endOfDay\<close> and \<open>format\<close> work in that zone, so the
  quotations of nine in the morning are formatted as of two.
\<close>

definition in_utc :: "env \<Rightarrow> env" where
  "in_utc e =
     e\<lparr>lib_parse := datefns_parse (zone_midnight 0),
       lib_startOfDay := (\<lambda>t. t - t mod 86400000),
       lib_endOfDay := (\<lambda>t. t - t mod 86400000 + 86399999),
       lib_format := (\<lambda>t. if t = 1767319200000 then ''20260102_020000''
                          else if t = 1767405600000 then ''20260103_020000''
                          else if t = 1767578400000 then ''20260105_020000''
                          else [])\<rparr>"

section \<open>Lemmas\<close>

subsection \<open>State primitives\<close>

lemma emit_fields [simp]:
  "trace (emit ev s) = trace s @ [ev]" "data (emit ev s) = data s" "loading (emit ev s) = loading s"
  by (simp_all add: emit_def)

lemma setLoading_fields [simp]:
  "trace (setLoading b s) = trace s @ [SetLoading b]" "data (setLoading b s) = data s"
  "loading (setLoading b s) = b"
  by (simp_all add: setLoading_def)

lemma setData_fields [simp]:
  "trace (setData xs s) = trace s @ [SetData xs]" "data (setData xs s) = xs"
  "loading (setData xs s) = loading s"
  by (simp_all add: setData_def)

subsection \<open>The staging loop\<close>

lemma forEach_snd:
  "snd (forEach e items c b s) = s\<lparr>trace := trace s @ map (\<lambda>(i, d). BatchSet i d) (staged e c items)\<rparr>"
  by (induction items arbitrary: c b s) (auto simp: emit_def split: sum.splits option.splits)

lemma forEach_fst:
  "fst (forEach e items c b s) = Inr (n, b') \<Longrightarrow> n = c + length items \<and> b' = b @ staged e c items"
proof (induction items arbitrary: c b s)
  case Nil
  then show ?case by simp
next
  case (Cons item items)
  show ?case
  proof (cases "stageable e item")
    case False
    with Cons.prems show ?thesis
      by (simp add: stageable_def split: sum.splits option.splits)
  next
    case True
    then obtain i where i: "docId e item = Inr i" "lib_doc e i = None"
      by (auto simp: stageable_def split: sum.splits)
    with Cons.prems
    have "fst (forEach e items (c + 1) (b @ [(i, stored e c item)])
                 (emit (BatchSet i (stored e c item)) s)) = Inr (n, b')"
      by simp
    from Cons.IH [OF this] i show ?thesis by simp
  qed
qed

lemma forEach_fst_ok:
  "list_all (stageable e) items \<Longrightarrow>
   fst (forEach e items c b s) = Inr (c + length items, b @ staged e c items)"
  by (induction items arbitrary: c b s)
     (auto simp: stageable_def split: sum.splits option.splits)

lemma forEach_fst_err:
  "\<not> list_all (stageable e) items \<Longrightarrow> \<exists>err. fst (forEach e items c b s) = Inl err"
  by (induction items arbitrary: c b s)
     (auto simp: stageable_def split: sum.splits option.splits)

lemma staged_sync_events: "list_all is_sync_event (map (\<lambda>(i, d). BatchSet i d) (staged e c items))"
  by (induction items arbitrary: c) (auto split: sum.splits option.splits)

lemma staged_length:
  "list_all (stageable e) items \<Longrightarrow> length (staged e c items) = length items"
  by (induction items arbitrary: c) (auto simp: stageable_def split: sum.splits option.splits)

lemma staged_nth:
  "list_all (stageable e) items \<Longrightarrow> k < length items \<Longrightarrow>
   docId e (items ! k) = Inr (fst (staged e c items ! k)) \<and>
   snd (staged e c items ! k) = stored e (c + k) (items ! k)"
proof (induction items arbitrary: c k)
  case Nil
  then show ?case by simp
next
  case (Cons item items)
  from Cons.prems obtain i where i: "docId e item = Inr i" "lib_doc e i = None"
    by (auto simp: stageable_def split: sum.splits)
  show ?case
  proof (cases k)
    case 0
    with i show ?thesis by simp
  next
    case (Suc j)
    with Cons.prems have "list_all (stageable e) items" "j < length items"
      by simp_all
    from Cons.IH [OF this, of "c + 1"] i Suc show ?thesis by simp
  qed
qed

lemma staged_mem:
  "list_all (stageable e) items \<Longrightarrow> r \<in> set items \<Longrightarrow>
   \<exists>i k. docId e r = Inr i \<and> k < length items \<and> items ! k = r \<and>
         (i, stored e (c + k) r) \<in> set (staged e c items)"
proof -
  assume ok: "list_all (stageable e) items" and "r \<in> set items"
  then obtain k where k: "k < length items" "items ! k = r"
    by (auto simp: in_set_conv_nth)
  from staged_nth [OF ok k(1), of c] k(2)
  have "docId e r = Inr (fst (staged e c items ! k))"
    and "snd (staged e c items ! k) = stored e (c + k) r" by simp_all
  moreover from staged_length [OF ok, of c] k(1)
  have "staged e c items ! k \<in> set (staged e c items)" by simp
  ultimately have "(fst (staged e c items ! k), stored e (c + k) r) \<in> set (staged e c items)"
    by (metis prod.collapse)
  with \<open>docId e r = Inr (fst (staged e c items ! k))\<close> k show ?thesis by blast
qed

lemma docId_Inr:
  "docId e item = Inr i \<longleftrightarrow>
   (\<exists>t. lib_newDate e (date item) = Date t \<and> i = type item @ ''_'' @ lib_format e t)"
  by (auto simp: docId_def format_def split: jsdate.splits)

lemma docId_cong:
  "lib_newDate e1 = lib_newDate e2 \<Longrightarrow> lib_format e1 = lib_format e2 \<Longrightarrow>
   type a = type b \<Longrightarrow> date a = date b \<Longrightarrow> docId e1 a = docId e2 b"
  by (simp add: docId_def format_def split: jsdate.splits)

lemma staged_ids_cong:
  "lib_newDate e1 = lib_newDate e2 \<Longrightarrow> lib_format e1 = lib_format e2 \<Longrightarrow>
   list_all (stageable e1) items \<Longrightarrow> list_all (stageable e2) items \<Longrightarrow>
   map fst (staged e1 c1 items) = map fst (staged e2 c2 items)"
proof (induction items arbitrary: c1 c2)
  case Nil
  then show ?case by simp
next
  case (Cons item items)
  from Cons.prems(1,2) have same: "docId e1 item = docId e2 item"
    by (intro docId_cong refl)
  from Cons.prems(3) obtain i where i: "docId e1 item = Inr i" "lib_doc e1 i = None"
    by (auto simp: stageable_def split: sum.splits)
  from same i(1) have d2: "docId e2 item = Inr i" by simp
  from Cons.prems(4) have "stageable e2 item" by simp
  with d2 have i2: "docId e2 item = Inr i" "lib_doc e2 i = None"
    by (simp_all add: stageable_def)
  from Cons.prems have "map fst (staged e1 (c1 + 1) items) = map fst (staged e2 (c2 + 1) items)"
    by (intro Cons.IH) simp_all
  with i i2 show ?case by simp
qed

subsection \<open>The cache write\<close>

lemma sync_snd: "snd (sync e items s) = s\<lparr>trace := trace s @ sync_events e items\<rparr>"
proof (cases "list_all (stageable e) items")
  case True
  from forEach_fst_ok [OF True, of 0 "[]" s] forEach_snd [of e items 0 "[]" s]
  have "forEach e items 0 [] s =
          (Inr (length items, staged e 0 items),
           s\<lparr>trace := trace s @ map (\<lambda>(i, d). BatchSet i d) (staged e 0 items)\<rparr>)"
    by (simp add: prod_eq_iff)
  with True show ?thesis
    by (simp add: sync_def sync_events_def emit_def split: promise.splits)
next
  case False
  from forEach_fst_err [OF False, of 0 "[]" s] obtain err
    where "fst (forEach e items 0 [] s) = Inl err" by blast
  with forEach_snd [of e items 0 "[]" s]
  have "forEach e items 0 [] s =
          (Inl err, s\<lparr>trace := trace s @ map (\<lambda>(i, d). BatchSet i d) (staged e 0 items)\<rparr>)"
    by (simp add: prod_eq_iff)
  with False show ?thesis
    by (simp add: sync_def sync_events_def)
qed

lemma sync_fst_ok:
  "list_all (stageable e) items \<Longrightarrow>
   fst (sync e items s) =
     (case lib_commit e (staged e 0 items) of
        Pending \<Rightarrow> Stalled | Rejected err \<Rightarrow> Threw err | Resolved u \<Rightarrow> Returned)"
proof -
  assume ok: "list_all (stageable e) items"
  obtain s1 where "forEach e items 0 [] s = (Inr (length items, staged e 0 items), s1)"
    using forEach_fst_ok [OF ok, of 0 "[]" s] by (cases "forEach e items 0 [] s") simp
  then show ?thesis
    by (simp add: sync_def split: promise.splits)
qed

lemma sync_fst_err:
  "\<not> list_all (stageable e) items \<Longrightarrow> \<exists>err. fst (sync e items s) = Threw err"
proof -
  assume "\<not> list_all (stageable e) items"
  from forEach_fst_err [OF this, of 0 "[]" s] obtain err s1
    where "forEach e items 0 [] s = (Inl err, s1)"
    by (cases "forEach e items 0 [] s") auto
  then show ?thesis by (simp add: sync_def)
qed

lemma sync_Stalled: "fst (sync e items s) = Stalled \<Longrightarrow> \<exists>b. lib_commit e b = Pending"
  by (cases "list_all (stageable e) items")
     (auto simp: sync_fst_ok dest: sync_fst_err [of e items s] split: promise.splits)

lemma sync_events_class: "list_all is_sync_event (sync_events e items)"
  using staged_sync_events [of e 0 items]
  by (simp add: sync_events_def split: promise.splits)

lemma sync_event_kinds:
  "is_sync_event ev \<Longrightarrow> \<not> is_publish ev \<and> \<not> is_remote ev \<and> \<not> is_read ev"
  by (cases ev) auto

lemma list_ex_sync_events:
  "\<not> list_ex is_publish (sync_events e items)" "\<not> list_ex is_remote (sync_events e items)"
  "\<not> list_ex is_read (sync_events e items)"
  using sync_events_class [of e items] sync_event_kinds
  by (auto simp: list_ex_iff list_all_iff)

lemma sync_events_commit:
  "BatchCommit b \<in> set (sync_events e items) \<Longrightarrow>
   b = staged e 0 items \<and> list_all (stageable e) items"
  by (auto simp: sync_events_def split: if_splits promise.splits)

lemma sync_events_has_commit:
  "list_all (stageable e) items \<Longrightarrow> BatchCommit (staged e 0 items) \<in> set (sync_events e items)"
  by (simp add: sync_events_def)

subsection \<open>The refill\<close>

lemma refill_None:
  "provider_items e fromDate toDate = None \<Longrightarrow>
   snd (refill e fromDate toDate s) = emit (Fetch (url fromDate toDate)) (emit (ConsoleLog CacheMiss) s)"
  by (auto simp: refill_def provider_items_def Let_def
      split: promise.splits payload.splits option.splits if_splits)

lemma refill_Some:
  "provider_items e fromDate toDate = Some items \<Longrightarrow>
   refill e fromDate toDate s =
     (if length items > 0
      then sync e items (setData items (emit (Fetch (url fromDate toDate)) (emit (ConsoleLog CacheMiss) s)))
      else (Returned, setData items (emit (Fetch (url fromDate toDate)) (emit (ConsoleLog CacheMiss) s))))"
  by (auto simp: refill_def provider_items_def Let_def
      split: promise.splits payload.splits option.splits if_splits)

lemma refill_failure:
  "lib_fetch e (url fromDate toDate) = Resolved res \<Longrightarrow> provider_failure res \<Longrightarrow>
   refill e fromDate toDate s =
     (if ok res then Returned else Threw (Error ''Failed to fetch history''),
      emit (Fetch (url fromDate toDate)) (emit (ConsoleLog CacheMiss) s))"
  by (auto simp: refill_def provider_failure_def Let_def
      split: promise.splits payload.splits option.splits if_splits)

lemma refill_snd:
  "snd (refill e fromDate toDate s) =
     s\<lparr>data := (case provider_items e fromDate toDate of None \<Rightarrow> data s | Some items \<Rightarrow> items),
       trace := trace s @ refill_events e fromDate toDate\<rparr>"
proof (cases "provider_items e fromDate toDate")
  case None
  then show ?thesis
    by (simp add: refill_None refill_events_def emit_def)
next
  case (Some items)
  then show ?thesis
    by (simp add: refill_Some refill_events_def sync_snd emit_def setData_def)
qed

lemma refill_Stalled:
  "fst (refill e fromDate toDate s) = Stalled \<Longrightarrow>
   lib_fetch e (url fromDate toDate) = Pending \<or>
   (\<exists>res. lib_fetch e (url fromDate toDate) = Resolved res \<and> json res = Pending) \<or>
   (\<exists>b. lib_commit e b = Pending)"
  by (auto simp: refill_def Let_def dest: sync_Stalled
      split: promise.splits payload.splits option.splits if_splits)

lemma refill_events_publish:
  "SetData xs \<in> set (refill_events e fromDate toDate) \<Longrightarrow> provider_items e fromDate toDate = Some xs"
proof -
  assume a: "SetData xs \<in> set (refill_events e fromDate toDate)"
  have no: "\<And>items. SetData xs \<notin> set (sync_events e items)"
    using list_ex_sync_events(1) by (force simp: list_ex_iff)
  show ?thesis
  proof (cases "provider_items e fromDate toDate")
    case None
    with a show ?thesis by (simp add: refill_events_def)
  next
    case (Some items)
    with a no [of items] show ?thesis
      by (simp add: refill_events_def split: if_splits)
  qed
qed

lemma refill_events_no_hit: "ConsoleLog (CacheHit n) \<notin> set (refill_events e fromDate toDate)"
proof -
  have "\<And>items. ConsoleLog (CacheHit n) \<notin> set (sync_events e items)"
    using sync_events_class by (force simp: list_all_iff)
  then show ?thesis
    by (simp add: refill_events_def split: option.splits)
qed

text \<open>
  Nothing from the remote call onwards reads the threshold.
\<close>

lemma docId_threshold: "docId (e\<lparr>MAX_VALID_GOLD_PRICE := m\<rparr>) item = docId e item"
  by (simp add: docId_def format_def split: jsdate.splits)

lemma stored_threshold: "stored (e\<lparr>MAX_VALID_GOLD_PRICE := m\<rparr>) k item = stored e k item"
  by (simp add: stored_def)

lemma forEach_threshold:
  "forEach (e\<lparr>MAX_VALID_GOLD_PRICE := m\<rparr>) items c b s = forEach e items c b s"
  by (induction items arbitrary: c b s)
     (simp_all add: docId_threshold stored_threshold split: sum.splits option.splits)

lemma sync_threshold: "sync (e\<lparr>MAX_VALID_GOLD_PRICE := m\<rparr>) items s = sync e items s"
  by (simp add: sync_def forEach_threshold split: prod.splits sum.splits promise.splits)

lemma refill_threshold:
  "refill (e\<lparr>MAX_VALID_GOLD_PRICE := m\<rparr>) fromDate toDate s = refill e fromDate toDate s"
  by (simp add: refill_def sync_threshold Let_def
      split: promise.splits payload.splits option.splits)

text \<open>Nor does it read the answer of the store to the range query.\<close>

lemma docId_getDocs: "docId (e\<lparr>lib_getDocs := g\<rparr>) item = docId e item"
  by (simp add: docId_def format_def split: jsdate.splits)

lemma stored_getDocs: "stored (e\<lparr>lib_getDocs := g\<rparr>) k item = stored e k item"
  by (simp add: stored_def)

lemma forEach_getDocs:
  "forEach (e\<lparr>lib_getDocs := g\<rparr>) items c b s = forEach e items c b s"
  by (induction items arbitrary: c b s)
     (simp_all add: docId_getDocs stored_getDocs split: sum.splits option.splits)

lemma sync_getDocs: "sync (e\<lparr>lib_getDocs := g\<rparr>) items s = sync e items s"
  by (simp add: sync_def forEach_getDocs split: prod.splits sum.splits promise.splits)

lemma refill_getDocs:
  "refill (e\<lparr>lib_getDocs := g\<rparr>) fromDate toDate s = refill e fromDate toDate s"
  by (simp add: refill_def sync_getDocs Let_def
      split: promise.splits payload.splits option.splits)

subsection \<open>The block and its handlers\<close>

lemma bounds_invalid:
  "lib_parse e fromDate = InvalidDate \<or> lib_parse e toDate = InvalidDate \<Longrightarrow>
   bounds e fromDate toDate = Inl (RangeError ''Invalid time value'')"
  by (auto simp: bounds_def startOfDay_def endOfDay_def toISOString_def Let_def
      split: jsdate.splits)

lemma hasOutliers_iff:
  "hasOutliers e xs \<longleftrightarrow> (\<exists>r\<in>set xs. buy r > MAX_VALID_GOLD_PRICE e \<or> sell r > MAX_VALID_GOLD_PRICE e)"
  by (simp add: hasOutliers_def list_ex_iff)

lemma tryBlock_miss:
  "bounds e fromDate toDate = Inr (lo, hi) \<Longrightarrow> lib_getDocs e lo hi = Resolved docs \<Longrightarrow>
   docs = [] \<or> hasOutliers e docs \<Longrightarrow>
   tryBlock e fromDate toDate s =
     refill e fromDate toDate
       (if docs = [] then emit (GetDocs lo hi) s
        else emit (ConsoleWarn (MAX_VALID_GOLD_PRICE e)) (emit (GetDocs lo hi) s))"
  by (auto simp: tryBlock_def Let_def)

lemma tryBlock_hit:
  "bounds e fromDate toDate = Inr (lo, hi) \<Longrightarrow> lib_getDocs e lo hi = Resolved docs \<Longrightarrow>
   docs \<noteq> [] \<Longrightarrow> \<not> hasOutliers e docs \<Longrightarrow>
   tryBlock e fromDate toDate s =
     (Returned, setLoading False (setData docs (emit (ConsoleLog (CacheHit (length docs))) (emit (GetDocs lo hi) s))))"
  by (auto simp: tryBlock_def Let_def)

lemma catchFinally_fst:
  "fst (catchFinally r) = (case fst r of Stalled \<Rightarrow> Stalled | _ \<Rightarrow> Returned)"
  by (simp add: catchFinally_def split: prod.splits completion.splits)

lemma catchFinally_snd:
  "snd (catchFinally r) =
     (snd r)\<lparr>loading := (case fst r of Stalled \<Rightarrow> loading (snd r) | _ \<Rightarrow> False),
             trace := trace (snd r) @ catch_events (fst r)\<rparr>"
  by (simp add: catchFinally_def catch_events_def setLoading_def emit_def
      split: prod.splits completion.splits)

lemma catch_events_kinds:
  "\<not> list_ex is_publish (catch_events c)" "\<not> list_ex is_write (catch_events c)"
  "\<not> list_ex is_remote (catch_events c)" "\<not> list_ex is_read (catch_events c)"
  by (simp_all add: catch_events_def split: completion.splits)

lemma catch_events_publish: "SetData xs \<notin> set (catch_events c)"
  by (simp add: catch_events_def split: completion.splits)

lemma catch_events_no_hit: "ConsoleLog (CacheHit n) \<notin> set (catch_events c)"
  by (simp add: catch_events_def split: completion.splits)

lemma catch_events_no_commit: "BatchCommit b \<notin> set (catch_events c)"
  by (simp add: catch_events_def split: completion.splits)

lemma tryBlock_trace: "\<exists>evs. trace (snd (tryBlock e fromDate toDate s)) = trace s @ evs"
proof (cases "bounds e fromDate toDate")
  case (Inl err)
  then show ?thesis by (simp add: tryBlock_def)
next
  case (Inr p)
  obtain lo hi where p: "p = (lo, hi)" by (cases p)
  show ?thesis
  proof (cases "lib_getDocs e lo hi")
    case (Resolved docs)
    show ?thesis
    proof (cases "docs = [] \<or> hasOutliers e docs")
      case True
      from tryBlock_miss [OF Inr [unfolded p] Resolved True]
      show ?thesis by (simp add: refill_snd)
    next
      case False
      with tryBlock_hit [OF Inr [unfolded p] Resolved]
      show ?thesis by simp
    qed
  next
    case (Rejected err)
    with Inr p show ?thesis by (simp add: tryBlock_def)
  next
    case Pending
    with Inr p show ?thesis by (simp add: tryBlock_def)
  qed
qed

lemma tryBlock_Stalled:
  "fst (tryBlock e fromDate toDate s) = Stalled \<Longrightarrow>
   (\<exists>lo hi. lib_getDocs e lo hi = Pending) \<or>
   (\<exists>u. lib_fetch e u = Pending) \<or>
   (\<exists>u res. lib_fetch e u = Resolved res \<and> json res = Pending) \<or>
   (\<exists>b. lib_commit e b = Pending)"
proof -
  assume st: "fst (tryBlock e fromDate toDate s) = Stalled"
  show ?thesis
  proof (cases "bounds e fromDate toDate")
    case (Inl err)
    with st show ?thesis by (simp add: tryBlock_def)
  next
    case (Inr p)
    obtain lo hi where p: "p = (lo, hi)" by (cases p)
    show ?thesis
    proof (cases "lib_getDocs e lo hi")
      case (Resolved docs)
      show ?thesis
      proof (cases "docs = [] \<or> hasOutliers e docs")
        case True
        from st tryBlock_miss [OF Inr [unfolded p] Resolved True, of s]
        obtain s0 where "fst (refill e fromDate toDate s0) = Stalled" by auto
        from refill_Stalled [OF this] show ?thesis by blast
      next
        case False
        with st tryBlock_hit [OF Inr [unfolded p] Resolved, of s]
        show ?thesis by simp
      qed
    next
      case (Rejected err)
      with st Inr p show ?thesis by (simp add: tryBlock_def)
    next
      case Pending
      then show ?thesis by blast
    qed
  qed
qed

subsection \<open>An invocation that misses the cache\<close>

lemma miss_state_eq:
  "miss_state e lo hi docs s = s\<lparr>loading := True, trace := trace s @ miss_events e lo hi docs\<rparr>"
  by (simp add: miss_state_def miss_events_def emit_def setLoading_def)

lemma run_miss:
  assumes "bounds e fromDate toDate = Inr (lo, hi)"
    and "lib_getDocs e lo hi = Resolved docs"
    and "docs = [] \<or> hasOutliers e docs"
  shows "fetchAndSyncHistory e fromDate toDate s =
           catchFinally (refill e fromDate toDate (miss_state e lo hi docs s))"
  using tryBlock_miss [OF assms, of "setLoading True s"]
  by (simp add: fetchAndSyncHistory_def miss_state_def)

lemma run_miss_snd:
  assumes "bounds e fromDate toDate = Inr (lo, hi)"
    and "lib_getDocs e lo hi = Resolved docs"
    and "docs = [] \<or> hasOutliers e docs"
  shows "snd (fetchAndSyncHistory e fromDate toDate s) =
           s\<lparr>loading := (fst (fetchAndSyncHistory e fromDate toDate s) = Stalled),
             data := (case provider_items e fromDate toDate of None \<Rightarrow> data s | Some items \<Rightarrow> items),
             trace := trace s @ miss_events e lo hi docs @ refill_events e fromDate toDate @
                      catch_events (fst (refill e fromDate toDate (miss_state e lo hi docs s)))\<rparr>"
  by (simp add: run_miss [OF assms] catchFinally_snd catchFinally_fst refill_snd miss_state_eq
      split: completion.splits option.splits)

lemma run_miss_fst:
  assumes "bounds e fromDate toDate = Inr (lo, hi)"
    and "lib_getDocs e lo hi = Resolved docs"
    and "docs = [] \<or> hasOutliers e docs"
  shows "fst (fetchAndSyncHistory e fromDate toDate s) =
           (case fst (refill e fromDate toDate (miss_state e lo hi docs s)) of
              Stalled \<Rightarrow> Stalled | _ \<Rightarrow> Returned)"
  by (simp add: run_miss [OF assms] catchFinally_fst)

lemma run_commit:
  assumes "BatchCommit b \<in> set (drop (length (trace s)) (trace (snd (fetchAndSyncHistory e fromDate toDate s))))"
  shows "\<exists>items. provider_items e fromDate toDate = Some items \<and> b = staged e 0 items \<and>
           list_all (stageable e) items"
proof (cases "bounds e fromDate toDate")
  case (Inl err)
  with assms show ?thesis
    by (simp add: fetchAndSyncHistory_def tryBlock_def catchFinally_def)
next
  case (Inr p)
  obtain lo hi where p: "p = (lo, hi)" by (cases p)
  show ?thesis
  proof (cases "lib_getDocs e lo hi")
    case (Resolved docs)
    show ?thesis
    proof (cases "docs = [] \<or> hasOutliers e docs")
      case True
      note snd = run_miss_snd [OF Inr [unfolded p] Resolved True, of s]
      have "drop (length (trace s)) (trace (snd (fetchAndSyncHistory e fromDate toDate s))) =
              miss_events e lo hi docs @ refill_events e fromDate toDate @
              catch_events (fst (refill e fromDate toDate (miss_state e lo hi docs s)))"
        by (simp add: snd)
      with assms have "BatchCommit b \<in> set (miss_events e lo hi docs) \<or>
          BatchCommit b \<in> set (refill_events e fromDate toDate) \<or>
          BatchCommit b \<in> set (catch_events (fst (refill e fromDate toDate (miss_state e lo hi docs s))))"
        by simp
      moreover have "BatchCommit b \<notin> set (miss_events e lo hi docs)"
        by (simp add: miss_events_def)
      moreover have "\<And>c. BatchCommit b \<notin> set (catch_events c)"
        by (simp add: catch_events_def split: completion.splits)
      ultimately have re: "BatchCommit b \<in> set (refill_events e fromDate toDate)"
        by blast
      show ?thesis
      proof (cases "provider_items e fromDate toDate")
        case None
        with re show ?thesis by (simp add: refill_events_def)
      next
        case (Some items)
        with re have "BatchCommit b \<in> set (sync_events e items)"
          by (simp add: refill_events_def split: if_splits)
        with sync_events_commit [of b e items] Some show ?thesis by simp
      qed
    next
      case False
      with assms tryBlock_hit [OF Inr [unfolded p] Resolved, of "setLoading True s"]
      show ?thesis
        by (simp add: fetchAndSyncHistory_def catchFinally_def)
    qed
  next
    case (Rejected err)
    with assms Inr p show ?thesis
      by (simp add: fetchAndSyncHistory_def tryBlock_def catchFinally_def)
  next
    case Pending
    with assms Inr p show ?thesis
      by (simp add: fetchAndSyncHistory_def tryBlock_def catchFinally_def)
  qed
qed

lemma committed_append: "committed (xs @ ys) = committed xs @ committed ys"
  by (induction xs rule: committed.induct) simp_all

lemma committed_staged: "committed (map (\<lambda>(i, d). BatchSet i d) b) = []"
  by (induction b) (simp_all split: prod.splits)

lemma committed_sync_events:
  "list_all (stageable e) items \<Longrightarrow> committed (sync_events e items) = [staged e 0 items]"
  by (simp add: sync_events_def committed_append committed_staged split: promise.splits)

lemma committed_catch_events: "committed (catch_events c) = []"
  by (simp add: catch_events_def split: completion.splits)

lemma committed_miss_events: "committed (miss_events e lo hi docs) = []"
  by (simp add: miss_events_def)

text \<open>
  A refill with a non-empty array whose items can all be staged commits exactly one
  batch: the staged writes of the array.
\<close>

lemma run_miss_committed:
  assumes "bounds e fromDate toDate = Inr (lo, hi)"
    and "lib_getDocs e lo hi = Resolved docs"
    and "docs = [] \<or> hasOutliers e docs"
    and "provider_items e fromDate toDate = Some items"
    and "items \<noteq> []"
    and "list_all (stageable e) items"
  shows "committed (drop (length (trace s)) (trace (snd (fetchAndSyncHistory e fromDate toDate s)))) =
           [staged e 0 items]"
proof -
  have "drop (length (trace s)) (trace (snd (fetchAndSyncHistory e fromDate toDate s))) =
          miss_events e lo hi docs @ refill_events e fromDate toDate @
          catch_events (fst (refill e fromDate toDate (miss_state e lo hi docs s)))"
    by (simp add: run_miss_snd [OF assms(1,2,3)])
  moreover have "committed (refill_events e fromDate toDate) = [staged e 0 items]"
    using assms(5) by (simp add: refill_events_def assms(4) committed_sync_events [OF assms(6)])
  ultimately show ?thesis
    by (simp add: committed_append committed_miss_events committed_catch_events)
qed

subsection \<open>The store\<close>

lemma fold_upd_other:
  "i \<notin> fst ` set b \<Longrightarrow> fold (\<lambda>(i, d) m. m(i \<mapsto> d)) b st i = st i"
  by (induction b arbitrary: st) (auto split: prod.splits)

lemma batch_commit_distinct:
  "distinct (map fst b) \<Longrightarrow> (i, d) \<in> set b \<Longrightarrow> batch_commit st b i = Some d"
  unfolding batch_commit_def
proof (induction b arbitrary: st)
  case Nil
  then show ?case by simp
next
  case (Cons p b)
  obtain j c where p: "p = (j, c)" by (cases p)
  show ?case
  proof (cases "(i, d) \<in> set b")
    case True
    with Cons.prems have "distinct (map fst b)" by simp
    from Cons.IH [OF this True] show ?thesis by (simp add: p)
  next
    case False
    with Cons.prems p have eq: "j = i" "c = d" and "i \<notin> fst ` set b" by auto
    from fold_upd_other [OF this(3), of "st(i \<mapsto> d)"] eq show ?thesis
      by (simp only: p list.simps fold_simps prod.case fun_upd_same comp_apply)
  qed
qed

lemma dom_batch_commit: "dom (batch_commit st b) = dom st \<union> fst ` set b"
  unfolding batch_commit_def
  by (induction b arbitrary: st) (auto split: prod.splits)

subsection \<open>The sample environment\<close>

lemmas flow_defs =
  fetchAndSyncHistory_def tryBlock_def bounds_def startOfDay_def endOfDay_def toISOString_def
  format_def hasOutliers_def docId_def stored_def sync_def url_def refill_def catchFinally_def
  emit_def setLoading_def setData_def provider_items_def provider_failure_def Let_def

lemmas parse_defs =
  datefns_parse_def datefns_fields_def parseNDigits_def parseInt_def literal_slash_def
  is_digit_def is_space_def days_in_month_def isLeapYearIndex_def zone_midnight_def
  epoch_days_def Let_def

lemma datefns_parse_InvalidDate:
  "datefns_parse zone str = InvalidDate \<longleftrightarrow> datefns_fields str = None"
  by (simp add: datefns_parse_def split: option.splits)

text \<open>The parser on the strings of the scenarios: strict, lenient and rejected ones.\<close>

lemma sample_parse:
  "datefns_parse (zone_midnight 25200000) ''01/01/2026'' = Date 1767200400000"
  "datefns_parse (zone_midnight 25200000) ''05/01/2026'' = Date 1767546000000"
  "datefns_parse (zone_midnight 25200000) ''1/1/2026'' = Date 1767200400000"
  "datefns_parse (zone_midnight 25200000) ''2026-01-01'' = InvalidDate"
  "datefns_parse (zone_midnight 0) ''01/01/2026'' = Date 1767225600000"
  "datefns_parse (zone_midnight 0) ''05/01/2026'' = Date 1767571200000"
  by (simp_all add: parse_defs)

lemma datefns_lenient:
  "datefns_fields ''1/1/2026'' = Some (1, 1, 2026)"
  "datefns_fields ''01/01/26'' = Some (1, 1, 26)"
  "datefns_fields ''01/01/2026 '' = Some (1, 1, 2026)"
  by (simp_all add: parse_defs)

lemma datefns_strict:
  "datefns_fields ''2026-01-01'' = None"
  "datefns_fields ''31/02/2026'' = None"
  "datefns_fields ''01/13/2026'' = None"
  "datefns_fields ''01/01/2026x'' = None"
  by (simp_all add: parse_defs)

lemmas sample_defs =
  sample_env_def in_utc_def sample_toISOString_def sample_newDate_def sample_parse
  idle_def shown_def quote_def series_def success_def

lemma sample_bounds:
  "bounds (sample_env cached answer outcome) ''01/01/2026'' ''05/01/2026'' =
     Inr (''2025-12-31T17:00:00.000Z'', ''2026-01-05T16:59:59.999Z'')"
  by (simp add: flow_defs sample_defs)

lemma sample_getDocs:
  "lib_getDocs (sample_env cached answer outcome) lo hi = cached"
  by (simp add: sample_env_def)

lemma sample_provider_items:
  "provider_items (sample_env cached (success items) outcome) fromDate toDate = Some items"
  by (simp add: provider_items_def sample_env_def success_def)

lemma sample_stageable:
  "list_all (stageable (sample_env cached answer outcome)) (series p)"
  by (simp add: stageable_def docId_def format_def sample_defs)

lemma sample_bounds_utc:
  "bounds (in_utc (sample_env cached answer outcome)) ''01/01/2026'' ''05/01/2026'' =
     Inr (''2026-01-01T00:00:00.000Z'', ''2026-01-05T23:59:59.999Z'')"
  by (simp add: flow_defs sample_defs)

section \<open>The claims\<close>

subsection \<open>C1\<close>

text \<open>
  Claim C1 (cache hit). Let the range bounds be built and the cache read return a
  non-empty series, in ascending date order as the query asks (line 30), in which every
  record has \<open>buy\<close> and \<open>sell\<close> at most \<open>MAX_VALID_GOLD_PRICE\<close>. Then the
  invocation returns with exactly that list published, in the order of the read and so
  ascending by date, with the busy flag cleared; its trace is the read, the log line,
  the publication and the two clearings of the flag, so there is no remote call and no
  cache write.
\<close>

theorem cache_hit_serves_cached:
  assumes "bounds e fromDate toDate = Inr (lo, hi)"
    and "lib_getDocs e lo hi = Resolved cached"
    and "cached \<noteq> []"
    and "sorted (map date cached)"
    and "\<forall>r\<in>set cached. buy r \<le> MAX_VALID_GOLD_PRICE e \<and> sell r \<le> MAX_VALID_GOLD_PRICE e"
  shows "\<exists>evs. fetchAndSyncHistory e fromDate toDate s =
                 (Returned, s\<lparr>loading := False, data := cached, trace := trace s @ evs\<rparr>) \<and>
               evs = [SetLoading True, GetDocs lo hi, ConsoleLog (CacheHit (length cached)),
                      SetData cached, SetLoading False, SetLoading False] \<and>
               sorted (map date (data (snd (fetchAndSyncHistory e fromDate toDate s)))) \<and>
               \<not> list_ex is_remote evs \<and> \<not> list_ex is_write evs"
proof -
  from assms(5) have "\<not> hasOutliers e cached"
    by (auto simp: hasOutliers_iff)
  from tryBlock_hit [OF assms(1,2,3) this, of "setLoading True s"]
  have "fetchAndSyncHistory e fromDate toDate s =
          (Returned, s\<lparr>loading := False, data := cached,
             trace := trace s @ [SetLoading True, GetDocs lo hi, ConsoleLog (CacheHit (length cached)),
                      SetData cached, SetLoading False, SetLoading False]\<rparr>)"
    by (simp add: fetchAndSyncHistory_def catchFinally_def setLoading_def setData_def emit_def)
  with assms(4) show ?thesis by simp
qed

text \<open>
  The scenario of the spec: three cached quotations, all selling at 92,100,000.
\<close>

theorem cache_hit_serves_cached_witness:
  "fetchAndSyncHistory (sample_env (Resolved (series 92100000)) Pending Pending)
     ''01/01/2026'' ''05/01/2026'' idle =
   (Returned,
    \<lparr>loading = False, data = series 92100000,
     trace = [SetLoading True,
              GetDocs ''2025-12-31T17:00:00.000Z'' ''2026-01-05T16:59:59.999Z'',
              ConsoleLog (CacheHit 3), SetData (series 92100000),
              SetLoading False, SetLoading False]\<rparr>)"
proof -
  let ?e = "sample_env (Resolved (series 92100000)) Pending Pending"
  have g: "lib_getDocs ?e ''2025-12-31T17:00:00.000Z'' ''2026-01-05T16:59:59.999Z'' =
             Resolved (series 92100000)"
    by (simp add: sample_env_def)
  have ne: "series 92100000 \<noteq> []" by (simp add: series_def)
  have so: "sorted (map date (series 92100000))"
    by (simp add: series_def quote_def)
  have va: "\<forall>r\<in>set (series 92100000).
              buy r \<le> MAX_VALID_GOLD_PRICE ?e \<and> sell r \<le> MAX_VALID_GOLD_PRICE ?e"
    by (simp add: series_def quote_def sample_env_def)
  from cache_hit_serves_cached [OF sample_bounds g ne so va, of idle]
  show ?thesis by (simp add: idle_def series_def)
qed

subsection \<open>C2\<close>

text \<open>
  Claim C2 (outlier veto). Let the cache read return a series with one record
  \<open>r\<close> whose \<open>buy\<close> or \<open>sell\<close> exceeds the threshold, whatever the other
  records are. Then the invocation is the remote refill run from the state after the
  warning, a state in which nothing has been published, and it is that whatever the
  store answers to the range query, so the cached series plays no part in the outcome;
  the trace goes from the read through the warning to the remote call;
  every publication after it carries the array the provider answered with; and the
  result is either the one before the call or the provider's array. The cached series
  is thus discarded as a whole: what is published comes from the provider alone (which
  may of course answer with records equal to cached ones).
\<close>

theorem outlier_discards_whole_series:
  assumes "bounds e fromDate toDate = Inr (lo, hi)"
    and "lib_getDocs e lo hi = Resolved cached"
    and "r \<in> set cached"
    and "buy r > MAX_VALID_GOLD_PRICE e \<or> sell r > MAX_VALID_GOLD_PRICE e"
  shows "\<exists>c s' evs.
           fetchAndSyncHistory e fromDate toDate s = (c, s') \<and>
           (\<forall>g. (c, s') = catchFinally (refill (e\<lparr>lib_getDocs := g\<rparr>) fromDate toDate
                        (emit (ConsoleWarn (MAX_VALID_GOLD_PRICE e))
                           (emit (GetDocs lo hi) (setLoading True s))))) \<and>
           trace s' = trace s @ [SetLoading True, GetDocs lo hi, ConsoleWarn (MAX_VALID_GOLD_PRICE e),
                                 ConsoleLog CacheMiss, Fetch (url fromDate toDate)] @ evs \<and>
           (\<forall>xs. SetData xs \<in> set evs \<longrightarrow> provider_items e fromDate toDate = Some xs) \<and>
           (data s' = data s \<or> provider_items e fromDate toDate = Some (data s'))"
proof -
  from assms(3,4) have out: "hasOutliers e cached" and ne: "cached \<noteq> []"
    by (auto simp: hasOutliers_iff)
  then have miss: "cached = [] \<or> hasOutliers e cached" by simp
  let ?R = "fetchAndSyncHistory e fromDate toDate s"
  let ?c0 = "fst (refill e fromDate toDate (miss_state e lo hi cached s))"
  let ?evs = "tl (tl (refill_events e fromDate toDate)) @ catch_events ?c0"
  have 1: "?R = (fst ?R, snd ?R)" by simp
  have 2: "\<forall>g. (fst ?R, snd ?R) = catchFinally (refill (e\<lparr>lib_getDocs := g\<rparr>) fromDate toDate
                        (emit (ConsoleWarn (MAX_VALID_GOLD_PRICE e))
                           (emit (GetDocs lo hi) (setLoading True s))))"
    using run_miss [OF assms(1,2) miss, of s] ne by (simp add: miss_state_def refill_getDocs)
  have 3: "trace (snd ?R) = trace s @ [SetLoading True, GetDocs lo hi, ConsoleWarn (MAX_VALID_GOLD_PRICE e),
                                 ConsoleLog CacheMiss, Fetch (url fromDate toDate)] @ ?evs"
    using ne by (simp add: run_miss_snd [OF assms(1,2) miss] miss_events_def refill_events_def)
  have 4: "\<forall>xs. SetData xs \<in> set ?evs \<longrightarrow> provider_items e fromDate toDate = Some xs"
  proof (intro allI impI)
    fix xs assume "SetData xs \<in> set ?evs"
    then have "SetData xs \<in> set (refill_events e fromDate toDate)"
      by (auto simp: refill_events_def catch_events_publish)
    then show "provider_items e fromDate toDate = Some xs" by (rule refill_events_publish)
  qed
  have 5: "data (snd ?R) = data s \<or> provider_items e fromDate toDate = Some (data (snd ?R))"
    by (simp add: run_miss_snd [OF assms(1,2) miss] split: option.splits)
  from 1 2 3 4 5 show ?thesis by blast
qed

text \<open>
  The scenario of the spec: one cached record sells at 520,000,000; the provider's
  series is published.
\<close>

theorem outlier_discards_whole_series_witness:
  "fst (fetchAndSyncHistory
          (sample_env (Resolved (series 520000000)) (success (series 92300000)) (Resolved ()))
          ''01/01/2026'' ''05/01/2026'' idle) = Returned \<and>
   data (snd (fetchAndSyncHistory
          (sample_env (Resolved (series 520000000)) (success (series 92300000)) (Resolved ()))
          ''01/01/2026'' ''05/01/2026'' idle)) = series 92300000 \<and>
   take 6 (trace (snd (fetchAndSyncHistory
          (sample_env (Resolved (series 520000000)) (success (series 92300000)) (Resolved ()))
          ''01/01/2026'' ''05/01/2026'' idle))) =
     [SetLoading True,
      GetDocs ''2025-12-31T17:00:00.000Z'' ''2026-01-05T16:59:59.999Z'',
      ConsoleWarn 200000000, ConsoleLog CacheMiss,
      Fetch ''/api/sjc/formatted?fromDate=01/01/2026&toDate=05/01/2026'',
      SetData (series 92300000)]"
proof -
  let ?e = "sample_env (Resolved (series 520000000)) (success (series 92300000)) (Resolved ())"
  let ?r = "quote ''2026-01-03T02:00:00.000Z'' 90100000 520000000"
  have mem: "?r \<in> set (series 520000000)" by (simp add: series_def)
  have out: "buy ?r > MAX_VALID_GOLD_PRICE ?e \<or> sell ?r > MAX_VALID_GOLD_PRICE ?e"
    by (simp add: quote_def sample_env_def)
  from outlier_discards_whole_series [OF sample_bounds sample_getDocs mem out, of idle]
  show ?thesis
    by (simp add: flow_defs sample_defs)
qed

subsection \<open>C3\<close>

text \<open>
  Claim C3 (empty cache). Let the cache read return no document. Then the trace of the
  invocation continues, right after the read, with the miss log line and the remote
  call; no cache-hit line is ever logged, and whatever is published afterwards is the
  provider's array.
\<close>

theorem empty_cache_goes_remote:
  assumes "bounds e fromDate toDate = Inr (lo, hi)"
    and "lib_getDocs e lo hi = Resolved []"
  shows "\<exists>c s' evs.
           fetchAndSyncHistory e fromDate toDate s = (c, s') \<and>
           trace s' = trace s @ [SetLoading True, GetDocs lo hi, ConsoleLog CacheMiss,
                                 Fetch (url fromDate toDate)] @ evs \<and>
           (\<forall>n. ConsoleLog (CacheHit n) \<notin> set evs) \<and>
           (\<forall>xs. SetData xs \<in> set evs \<longrightarrow> provider_items e fromDate toDate = Some xs)"
proof -
  have miss: "([]::HistoryItem list) = [] \<or> hasOutliers e []" by simp
  let ?R = "fetchAndSyncHistory e fromDate toDate s"
  let ?c0 = "fst (refill e fromDate toDate (miss_state e lo hi [] s))"
  let ?evs = "tl (tl (refill_events e fromDate toDate)) @ catch_events ?c0"
  have 1: "?R = (fst ?R, snd ?R)" by simp
  have 2: "trace (snd ?R) = trace s @ [SetLoading True, GetDocs lo hi, ConsoleLog CacheMiss,
                                 Fetch (url fromDate toDate)] @ ?evs"
    by (simp add: run_miss_snd [OF assms miss] miss_events_def refill_events_def)
  have sub: "set ?evs \<subseteq> set (refill_events e fromDate toDate) \<union> set (catch_events ?c0)"
    by (auto simp: refill_events_def)
  have 3: "\<forall>n. ConsoleLog (CacheHit n) \<notin> set ?evs"
    using sub refill_events_no_hit catch_events_no_hit by blast
  have 4: "\<forall>xs. SetData xs \<in> set ?evs \<longrightarrow> provider_items e fromDate toDate = Some xs"
    using sub refill_events_publish catch_events_publish by blast
  from 1 2 3 4 show ?thesis by blast
qed

theorem empty_cache_goes_remote_witness:
  "fst (fetchAndSyncHistory (sample_env (Resolved []) (success (series 92300000)) (Resolved ()))
          ''01/01/2026'' ''05/01/2026'' idle) = Returned \<and>
   take 4 (trace (snd (fetchAndSyncHistory
          (sample_env (Resolved []) (success (series 92300000)) (Resolved ()))
          ''01/01/2026'' ''05/01/2026'' idle))) =
     [SetLoading True,
      GetDocs ''2025-12-31T17:00:00.000Z'' ''2026-01-05T16:59:59.999Z'',
      ConsoleLog CacheMiss,
      Fetch ''/api/sjc/formatted?fromDate=01/01/2026&toDate=05/01/2026'']"
  using empty_cache_goes_remote [OF sample_bounds sample_getDocs, of "success (series 92300000)" "Resolved ()" idle]
  by (simp add: flow_defs sample_defs)

subsection \<open>C4\<close>

text \<open>
  Claim C4 (provider failure). Let the invocation reach the remote call (the cache read
  was empty or had an outlier) and let the provider respond with a non-2xx status, or
  with a payload whose \<open>success\<close> flag is false or whose \<open>data\<close> is not an
  array. Then the invocation returns normally to its caller, the state differs from the
  one before the call only in the cleared flag and the trace, so the result is the one
  before the call, and the trace has no cache write and no publication.
\<close>

theorem provider_failure_is_silent:
  assumes "bounds e fromDate toDate = Inr (lo, hi)"
    and "lib_getDocs e lo hi = Resolved docs"
    and "docs = [] \<or> hasOutliers e docs"
    and "lib_fetch e (url fromDate toDate) = Resolved res"
    and "provider_failure res"
  shows "\<exists>evs. fetchAndSyncHistory e fromDate toDate s =
                 (Returned, s\<lparr>loading := False, trace := trace s @ evs\<rparr>) \<and>
               data (snd (fetchAndSyncHistory e fromDate toDate s)) = data s \<and>
               \<not> list_ex is_write evs \<and> \<not> list_ex is_publish evs"
proof -
  let ?evs = "miss_events e lo hi docs @ [ConsoleLog CacheMiss, Fetch (url fromDate toDate)] @
              (if ok res then [SetLoading False]
               else [ConsoleError (Error ''Failed to fetch history''), SetLoading False])"
  have eq: "fetchAndSyncHistory e fromDate toDate s =
          (Returned, s\<lparr>loading := False, trace := trace s @ ?evs\<rparr>)"
    by (simp add: run_miss [OF assms(1,2,3)] refill_failure [OF assms(4,5)] miss_state_eq
        catchFinally_def setLoading_def emit_def)
  have "\<not> list_ex is_write ?evs" "\<not> list_ex is_publish ?evs"
    by (simp_all add: miss_events_def)
  with eq show ?thesis by (intro exI [of _ ?evs]) simp
qed

text \<open>
  A 503 from the provider while an earlier result is shown: the result stays.
\<close>

theorem provider_failure_is_silent_witness:
  "fetchAndSyncHistory (sample_env (Resolved []) (Resolved \<lparr>ok = False, json = Pending\<rparr>) Pending)
     ''01/01/2026'' ''05/01/2026'' shown =
   (Returned,
    \<lparr>loading = False, data = series 92100000,
     trace = [SetLoading True,
              GetDocs ''2025-12-31T17:00:00.000Z'' ''2026-01-05T16:59:59.999Z'',
              ConsoleLog CacheMiss,
              Fetch ''/api/sjc/formatted?fromDate=01/01/2026&toDate=05/01/2026'',
              ConsoleError (Error ''Failed to fetch history''), SetLoading False]\<rparr>)"
proof -
  let ?res = "\<lparr>ok = False, json = Pending\<rparr>"
  let ?e = "sample_env (Resolved []) (Resolved ?res) Pending"
  have miss: "([]::HistoryItem list) = [] \<or> hasOutliers ?e []" by simp
  have f: "lib_fetch ?e (url ''01/01/2026'' ''05/01/2026'') = Resolved ?res"
    by (simp add: sample_env_def)
  have pf: "provider_failure ?res" by (simp add: provider_failure_def)
  from provider_failure_is_silent [OF sample_bounds sample_getDocs miss f pf, of shown]
  show ?thesis by (simp add: flow_defs sample_defs)
qed

subsection \<open>C5\<close>

text \<open>
  Claim C5 (idempotent write), as amended. Take two refills for the same range by
  browsers with the same date functions (the same time zone): each invocation reaches
  the remote call, the provider answers both with the same non-empty array
  \<open>items\<close>, and every item can be staged. Then each invocation commits exactly one
  batch, \<open>b1\<close> and \<open>b2\<close>. \<open>b1\<close> has one write per item, the \<open>k\<close>-th
  being the object of the \<open>k\<close>-th item under the identifier made of the type of the
  item, an underscore and the formatted date of the item; the identifier of an item is
  determined by its \<open>type\<close> and \<open>date\<close>; \<open>b2\<close> has the same identifiers
  in the same order; and committing \<open>b2\<close> to a store that holds \<open>b1\<close> leaves
  the set of documents of the store as it is: the second commit replaces documents and
  adds none.
\<close>

theorem docId_deterministic_upsert:
  assumes "lib_newDate e1 = lib_newDate e2" and "lib_format e1 = lib_format e2"
    and "bounds e1 fromDate toDate = Inr (lo1, hi1)"
    and "lib_getDocs e1 lo1 hi1 = Resolved docs1"
    and "docs1 = [] \<or> hasOutliers e1 docs1"
    and "bounds e2 fromDate toDate = Inr (lo2, hi2)"
    and "lib_getDocs e2 lo2 hi2 = Resolved docs2"
    and "docs2 = [] \<or> hasOutliers e2 docs2"
    and "provider_items e1 fromDate toDate = Some items"
    and "provider_items e2 fromDate toDate = Some items"
    and "items \<noteq> []"
    and "list_all (stageable e1) items" and "list_all (stageable e2) items"
  shows "\<exists>b1 b2.
           committed (drop (length (trace s1))
             (trace (snd (fetchAndSyncHistory e1 fromDate toDate s1)))) = [b1] \<and>
           committed (drop (length (trace s2))
             (trace (snd (fetchAndSyncHistory e2 fromDate toDate s2)))) = [b2] \<and>
           length b1 = length items \<and>
           (\<forall>k<length items. \<exists>t. lib_newDate e1 (date (items ! k)) = Date t \<and>
              fst (b1 ! k) = type (items ! k) @ ''_'' @ lib_format e1 t \<and>
              snd (b1 ! k) = stored e1 k (items ! k)) \<and>
           (\<forall>x y. type x = type y \<and> date x = date y \<longrightarrow> docId e1 x = docId e1 y) \<and>
           map fst b2 = map fst b1 \<and>
           dom (batch_commit (batch_commit st b1) b2) = dom (batch_commit st b1)"
proof -
  let ?b1 = "staged e1 0 items" and ?b2 = "staged e2 0 items"
  note ok1 = assms(12) and ok2 = assms(13)
  have c1: "committed (drop (length (trace s1))
             (trace (snd (fetchAndSyncHistory e1 fromDate toDate s1)))) = [?b1]"
    by (rule run_miss_committed [OF assms(3,4,5,9,11) ok1])
  have c2: "committed (drop (length (trace s2))
             (trace (snd (fetchAndSyncHistory e2 fromDate toDate s2)))) = [?b2]"
    by (rule run_miss_committed [OF assms(6,7,8,10,11) ok2])
  have 1: "length ?b1 = length items"
    by (simp add: staged_length [OF ok1])
  have 2: "\<forall>k<length items. \<exists>t. lib_newDate e1 (date (items ! k)) = Date t \<and>
              fst (?b1 ! k) = type (items ! k) @ ''_'' @ lib_format e1 t \<and>
              snd (?b1 ! k) = stored e1 k (items ! k)"
  proof (intro allI impI)
    fix k assume "k < length items"
    from staged_nth [OF ok1 this, of 0]
    show "\<exists>t. lib_newDate e1 (date (items ! k)) = Date t \<and>
              fst (?b1 ! k) = type (items ! k) @ ''_'' @ lib_format e1 t \<and>
              snd (?b1 ! k) = stored e1 k (items ! k)"
      by (simp add: docId_Inr)
  qed
  have 3: "\<forall>x y. type x = type y \<and> date x = date y \<longrightarrow> docId e1 x = docId e1 y"
    by (auto intro: docId_cong)
  have 4: "map fst ?b2 = map fst ?b1"
    using assms(1,2) ok1 ok2 by (intro staged_ids_cong) simp_all
  have 5: "dom (batch_commit (batch_commit st ?b1) ?b2) = dom (batch_commit st ?b1)"
  proof -
    from 4 have "fst ` set ?b2 = fst ` set ?b1"
      by (metis set_map)
    then show ?thesis by (auto simp: dom_batch_commit)
  qed
  from c1 c2 1 2 3 4 5 show ?thesis by blast
qed

text \<open>
  The provider keeps reporting 520,000,000, so the series written by the first refill
  is vetoed on the next day and refilled again by the same browser: each run commits
  one batch, both with the same three identifiers, and the store holds the same
  documents after the second commit as after the first.
\<close>

theorem docId_deterministic_upsert_witness:
  "map (map fst) (committed (trace (snd (fetchAndSyncHistory
      (sample_env (Resolved []) (success (series 520000000)) (Resolved ()))
      ''01/01/2026'' ''05/01/2026'' idle)))) =
     [[''bar_20260102_090000'', ''bar_20260103_090000'', ''bar_20260105_090000'']] \<and>
   map (map fst) (committed (trace (snd (fetchAndSyncHistory
      ((sample_env (Resolved (series 520000000)) (success (series 520000000)) (Resolved ()))
         \<lparr>now := \<lambda>k. ''2026-01-07T08:00:00.000Z''\<rparr>)
      ''01/01/2026'' ''05/01/2026'' idle)))) =
     [[''bar_20260102_090000'', ''bar_20260103_090000'', ''bar_20260105_090000'']] \<and>
   dom (batch_commit
          (batch_commit Map.empty
             (hd (committed (trace (snd (fetchAndSyncHistory
                (sample_env (Resolved []) (success (series 520000000)) (Resolved ()))
                ''01/01/2026'' ''05/01/2026'' idle))))))
          (hd (committed (trace (snd (fetchAndSyncHistory
             ((sample_env (Resolved (series 520000000)) (success (series 520000000)) (Resolved ()))
                \<lparr>now := \<lambda>k. ''2026-01-07T08:00:00.000Z''\<rparr>)
             ''01/01/2026'' ''05/01/2026'' idle)))))) =
     {''bar_20260102_090000'', ''bar_20260103_090000'', ''bar_20260105_090000''}"
proof -
  let ?e1 = "sample_env (Resolved []) (success (series 520000000)) (Resolved ())"
  let ?e2 = "(sample_env (Resolved (series 520000000)) (success (series 520000000)) (Resolved ()))
               \<lparr>now := \<lambda>k. ''2026-01-07T08:00:00.000Z''\<rparr>"
  have nd: "lib_newDate ?e1 = lib_newDate ?e2" by (simp add: sample_env_def)
  have fm: "lib_format ?e1 = lib_format ?e2" by (simp add: sample_env_def)
  have b1: "bounds ?e1 ''01/01/2026'' ''05/01/2026'' =
              Inr (''2025-12-31T17:00:00.000Z'', ''2026-01-05T16:59:59.999Z'')"
    by (rule sample_bounds)
  have b2: "bounds ?e2 ''01/01/2026'' ''05/01/2026'' =
              Inr (''2025-12-31T17:00:00.000Z'', ''2026-01-05T16:59:59.999Z'')"
    by (simp add: flow_defs sample_defs)
  have g1: "lib_getDocs ?e1 ''2025-12-31T17:00:00.000Z'' ''2026-01-05T16:59:59.999Z'' = Resolved []"
    by (simp add: sample_env_def)
  have g2: "lib_getDocs ?e2 ''2025-12-31T17:00:00.000Z'' ''2026-01-05T16:59:59.999Z'' =
              Resolved (series 520000000)"
    by (simp add: sample_env_def)
  have m1: "([]::HistoryItem list) = [] \<or> hasOutliers ?e1 []" by simp
  have m2: "series 520000000 = [] \<or> hasOutliers ?e2 (series 520000000)"
    by (simp add: hasOutliers_def sample_defs)
  have p1: "provider_items ?e1 ''01/01/2026'' ''05/01/2026'' = Some (series 520000000)"
    by (rule sample_provider_items)
  have p2: "provider_items ?e2 ''01/01/2026'' ''05/01/2026'' = Some (series 520000000)"
    by (simp add: provider_items_def sample_env_def success_def)
  have ne: "series 520000000 \<noteq> []" by (simp add: series_def)
  have s1: "list_all (stageable ?e1) (series 520000000)" by (rule sample_stageable)
  have s2: "list_all (stageable ?e2) (series 520000000)"
    by (simp add: stageable_def docId_def format_def sample_defs)
  from docId_deterministic_upsert [OF nd fm b1 g1 m1 b2 g2 m2 p1 p2 ne s1 s2, of idle idle Map.empty]
  show ?thesis
    by (simp add: flow_defs sample_defs dom_batch_commit)
qed

text \<open>
  The claim without the condition on the time zone fails. The same provider data is
  refilled by a browser seven hours ahead of UTC and by one in UTC: both commit, the
  first under identifiers that end in 090000, the second under identifiers that end in
  020000, and after the second commit the store holds a second document for each
  quotation.
\<close>

theorem docId_time_zone_counterexample:
  "map (map fst) (committed (trace (snd (fetchAndSyncHistory
      (sample_env (Resolved []) (success (series 92300000)) (Resolved ()))
      ''01/01/2026'' ''05/01/2026'' idle)))) =
     [[''bar_20260102_090000'', ''bar_20260103_090000'', ''bar_20260105_090000'']] \<and>
   map (map fst) (committed (trace (snd (fetchAndSyncHistory
      (in_utc (sample_env (Resolved []) (success (series 92300000)) (Resolved ())))
      ''01/01/2026'' ''05/01/2026'' idle)))) =
     [[''bar_20260102_020000'', ''bar_20260103_020000'', ''bar_20260105_020000'']] \<and>
   dom (batch_commit Map.empty
          (hd (committed (trace (snd (fetchAndSyncHistory
             (sample_env (Resolved []) (success (series 92300000)) (Resolved ()))
             ''01/01/2026'' ''05/01/2026'' idle)))))) =
     {''bar_20260102_090000'', ''bar_20260103_090000'', ''bar_20260105_090000''} \<and>
   dom (batch_commit
          (batch_commit Map.empty
             (hd (committed (trace (snd (fetchAndSyncHistory
                (sample_env (Resolved []) (success (series 92300000)) (Resolved ()))
                ''01/01/2026'' ''05/01/2026'' idle))))))
          (hd (committed (trace (snd (fetchAndSyncHistory
             (in_utc (sample_env (Resolved []) (success (series 92300000)) (Resolved ())))
             ''01/01/2026'' ''05/01/2026'' idle)))))) =
     {''bar_20260102_090000'', ''bar_20260103_090000'', ''bar_20260105_090000'',
      ''bar_20260102_020000'', ''bar_20260103_020000'', ''bar_20260105_020000''}"
  by (simp add: flow_defs sample_defs dom_batch_commit insert_commute)

subsection \<open>C6\<close>

text \<open>
  Claim C6 (publish before write). Let the invocation reach the remote call and the
  provider answer with a non-empty array \<open>items\<close>. Then the trace splits around
  the publication of \<open>items\<close>: no cache write before it, no publication after it,
  and, when every item can be staged, a commit after it. The result at the end is
  \<open>items\<close>; nothing is thrown to the caller; if the invocation returns the flag is
  cleared; it can only fail to return when the commit never settles; and when the
  commit is rejected the invocation returns, having logged the rejection, with
  \<open>items\<close> still published.
\<close>

theorem fresh_published_before_write:
  assumes "bounds e fromDate toDate = Inr (lo, hi)"
    and "lib_getDocs e lo hi = Resolved docs"
    and "docs = [] \<or> hasOutliers e docs"
    and "provider_items e fromDate toDate = Some items"
    and "items \<noteq> []"
  shows "\<exists>c s' pre post.
           fetchAndSyncHistory e fromDate toDate s = (c, s') \<and>
           trace s' = trace s @ pre @ SetData items # post \<and>
           \<not> list_ex is_write pre \<and> \<not> list_ex is_publish post \<and>
           (list_all (stageable e) items \<longrightarrow> (\<exists>b. BatchCommit b \<in> set post)) \<and>
           data s' = items \<and>
           (\<forall>err. c \<noteq> Threw err) \<and>
           (c = Returned \<longrightarrow> \<not> loading s') \<and>
           (c = Stalled \<longrightarrow> (\<exists>b. lib_commit e b = Pending)) \<and>
           (\<forall>b err. BatchCommit b \<in> set post \<and> lib_commit e b = Rejected err \<longrightarrow>
                    c = Returned \<and> ConsoleError err \<in> set post)"
proof -
  let ?R = "fetchAndSyncHistory e fromDate toDate s"
  let ?s0 = "miss_state e lo hi docs s"
  let ?c0 = "fst (refill e fromDate toDate ?s0)"
  let ?pre = "miss_events e lo hi docs @ [ConsoleLog CacheMiss, Fetch (url fromDate toDate)]"
  let ?post = "sync_events e items @ catch_events ?c0"
  note snd = run_miss_snd [OF assms(1,2,3), of s]
  note fst = run_miss_fst [OF assms(1,2,3), of s]
  have c0: "?c0 = fst (sync e items (setData items
                (emit (Fetch (url fromDate toDate)) (emit (ConsoleLog CacheMiss) ?s0))))"
    using assms(5) by (simp add: refill_Some [OF assms(4)])
  have 1: "?R = (fst ?R, snd ?R)" by simp
  have 2: "trace (snd ?R) = trace s @ ?pre @ SetData items # ?post"
    using assms(5) by (simp add: snd assms(4) refill_events_def)
  have 3: "\<not> list_ex is_write ?pre"
    by (simp add: miss_events_def)
  have 4: "\<not> list_ex is_publish ?post"
    using list_ex_sync_events(1) [of e items] catch_events_kinds(1) [of ?c0] by simp
  have 5: "list_all (stageable e) items \<longrightarrow> (\<exists>b. BatchCommit b \<in> set ?post)"
    using sync_events_has_commit [of e items] by auto
  have 6: "data (snd ?R) = items"
    by (simp add: snd assms(4))
  have 7: "\<forall>err. fst ?R \<noteq> Threw err"
    by (simp add: fst split: completion.splits)
  have 8: "fst ?R = Returned \<longrightarrow> \<not> loading (snd ?R)"
    by (simp add: snd)
  have 9: "fst ?R = Stalled \<longrightarrow> (\<exists>b. lib_commit e b = Pending)"
  proof
    assume "fst ?R = Stalled"
    then have "?c0 = Stalled" by (simp add: fst split: completion.splits)
    with c0 have "fst (sync e items (setData items
                (emit (Fetch (url fromDate toDate)) (emit (ConsoleLog CacheMiss) ?s0)))) = Stalled"
      by simp
    then show "\<exists>b. lib_commit e b = Pending" by (rule sync_Stalled)
  qed
  have 10: "\<forall>b err. BatchCommit b \<in> set ?post \<and> lib_commit e b = Rejected err \<longrightarrow>
                    fst ?R = Returned \<and> ConsoleError err \<in> set ?post"
  proof (intro allI impI, elim conjE)
    fix b err
    assume mem: "BatchCommit b \<in> set ?post" and rej: "lib_commit e b = Rejected err"
    from mem catch_events_no_commit have "BatchCommit b \<in> set (sync_events e items)" by auto
    from sync_events_commit [OF this]
    have b: "b = staged e 0 items" and ok: "list_all (stageable e) items"
      by simp_all
    from sync_fst_ok [OF ok] rej b c0 have "?c0 = Threw err" by simp
    then show "fst ?R = Returned \<and> ConsoleError err \<in> set ?post"
      by (simp add: fst catch_events_def)
  qed
  from 1 2 3 4 5 6 7 8 9 10 show ?thesis by blast
qed

text \<open>
  The store rejects the commit: events 5 to 8 are the writes, event 4 the only
  publication, and the run ends with the logged error and the cleared flag.
\<close>

theorem fresh_published_before_write_witness:
  "fst (fetchAndSyncHistory
          (sample_env (Resolved []) (success (series 92300000)) (Rejected (FirebaseError ''unavailable'')))
          ''01/01/2026'' ''05/01/2026'' idle) = Returned \<and>
   data (snd (fetchAndSyncHistory
          (sample_env (Resolved []) (success (series 92300000)) (Rejected (FirebaseError ''unavailable'')))
          ''01/01/2026'' ''05/01/2026'' idle)) = series 92300000 \<and>
   map is_write (trace (snd (fetchAndSyncHistory
          (sample_env (Resolved []) (success (series 92300000)) (Rejected (FirebaseError ''unavailable'')))
          ''01/01/2026'' ''05/01/2026'' idle))) =
     [False, False, False, False, False, True, True, True, True, False, False] \<and>
   map is_publish (trace (snd (fetchAndSyncHistory
          (sample_env (Resolved []) (success (series 92300000)) (Rejected (FirebaseError ''unavailable'')))
          ''01/01/2026'' ''05/01/2026'' idle))) =
     [False, False, False, False, True, False, False, False, False, False, False] \<and>
   drop 9 (trace (snd (fetchAndSyncHistory
          (sample_env (Resolved []) (success (series 92300000)) (Rejected (FirebaseError ''unavailable'')))
          ''01/01/2026'' ''05/01/2026'' idle))) =
     [ConsoleError (FirebaseError ''unavailable''), SetLoading False]"
proof -
  let ?e = "sample_env (Resolved []) (success (series 92300000)) (Rejected (FirebaseError ''unavailable''))"
  have miss: "([]::HistoryItem list) = [] \<or> hasOutliers ?e []" by simp
  have ne: "series 92300000 \<noteq> []" by (simp add: series_def)
  from fresh_published_before_write [OF sample_bounds sample_getDocs miss sample_provider_items ne, of idle]
  show ?thesis by (simp add: flow_defs sample_defs)
qed

subsection \<open>C7\<close>

text \<open>
  Claim C7 (empty refill). Let the invocation reach the remote call and the provider
  answer with success and an empty array. Then the invocation returns with the empty
  result published and the busy flag cleared; its trace ends with the publication and
  the clearing of the flag and has no cache write.
\<close>

theorem empty_refill_publishes_empty:
  assumes "bounds e fromDate toDate = Inr (lo, hi)"
    and "lib_getDocs e lo hi = Resolved docs"
    and "docs = [] \<or> hasOutliers e docs"
    and "provider_items e fromDate toDate = Some []"
  shows "\<exists>evs. fetchAndSyncHistory e fromDate toDate s =
                 (Returned, s\<lparr>loading := False, data := [], trace := trace s @ evs\<rparr>) \<and>
               evs = SetLoading True # GetDocs lo hi #
                     (if docs = [] then [] else [ConsoleWarn (MAX_VALID_GOLD_PRICE e)]) @
                     [ConsoleLog CacheMiss, Fetch (url fromDate toDate), SetData [],
                      SetLoading False] \<and>
               \<not> list_ex is_write evs"
  by (simp add: run_miss [OF assms(1,2,3)] refill_Some [OF assms(4)] miss_state_eq miss_events_def
      catchFinally_def setLoading_def setData_def emit_def)

theorem empty_refill_publishes_empty_witness:
  "fetchAndSyncHistory (sample_env (Resolved []) (success []) Pending)
     ''01/01/2026'' ''05/01/2026'' shown =
   (Returned,
    \<lparr>loading = False, data = [],
     trace = [SetLoading True,
              GetDocs ''2025-12-31T17:00:00.000Z'' ''2026-01-05T16:59:59.999Z'',
              ConsoleLog CacheMiss,
              Fetch ''/api/sjc/formatted?fromDate=01/01/2026&toDate=05/01/2026'',
              SetData [], SetLoading False]\<rparr>)"
proof -
  let ?e = "sample_env (Resolved []) (success []) Pending"
  have miss: "([]::HistoryItem list) = [] \<or> hasOutliers ?e []" by simp
  from empty_refill_publishes_empty [OF sample_bounds sample_getDocs miss sample_provider_items, of shown]
  show ?thesis by (simp add: flow_defs sample_defs)
qed

subsection \<open>C8\<close>

text \<open>
  Claim C8 (no integrity check on provider data). Let the invocation reach the remote
  call, the provider answer with an array that contains a record \<open>r\<close> whose
  \<open>buy\<close> or \<open>sell\<close> exceeds the threshold, and every item be stageable. Then
  \<open>r\<close> is part of the published result; a write of \<open>r\<close>'s fields under
  \<open>r\<close>'s identifier is staged and is part of the committed batch; after the commit
  the store has a document under that identifier, which is \<open>r\<close>'s when the batch
  has no two writes for one identifier; and the refill does not depend on the threshold
  at all.
\<close>

theorem provider_outliers_unchecked:
  assumes "bounds e fromDate toDate = Inr (lo, hi)"
    and "lib_getDocs e lo hi = Resolved docs"
    and "docs = [] \<or> hasOutliers e docs"
    and "provider_items e fromDate toDate = Some items"
    and "r \<in> set items"
    and "buy r > MAX_VALID_GOLD_PRICE e \<or> sell r > MAX_VALID_GOLD_PRICE e"
    and "list_all (stageable e) items"
  shows "\<exists>c s' b i k.
           fetchAndSyncHistory e fromDate toDate s = (c, s') \<and>
           r \<in> set (data s') \<and>
           docId e r = Inr i \<and> (i, stored e k r) \<in> set b \<and>
           HistoryItem.truncate (stored e k r) = r \<and>
           BatchSet i (stored e k r) \<in> set (trace s') \<and>
           BatchCommit b \<in> set (trace s') \<and>
           i \<in> dom (batch_commit st b) \<and>
           (distinct (map fst b) \<longrightarrow> batch_commit st b i = Some (stored e k r)) \<and>
           (\<forall>m. refill (e\<lparr>MAX_VALID_GOLD_PRICE := m\<rparr>) fromDate toDate s = refill e fromDate toDate s)"
proof -
  let ?R = "fetchAndSyncHistory e fromDate toDate s"
  let ?b = "staged e 0 items"
  note snd = run_miss_snd [OF assms(1,2,3), of s]
  from assms(5) have ne: "items \<noteq> []" by auto
  from staged_mem [OF assms(7,5), of 0] obtain i k
    where i: "docId e r = Inr i" and mem: "(i, stored e k r) \<in> set ?b" by auto
  have 1: "?R = (fst ?R, snd ?R)" by simp
  have 2: "r \<in> set (data (snd ?R))"
    using assms(5) by (simp add: snd assms(4))
  have 3: "HistoryItem.truncate (stored e k r) = r"
    by (simp add: stored_def HistoryItem.truncate_def)
  have sub: "set (sync_events e items) \<subseteq> set (trace (snd ?R))"
    using ne by (auto simp: snd assms(4) refill_events_def)
  from mem have "BatchSet i (stored e k r) \<in> set (sync_events e items)"
    by (force simp: sync_events_def)
  with sub have 4: "BatchSet i (stored e k r) \<in> set (trace (snd ?R))" by blast
  from sync_events_has_commit [OF assms(7)] sub
  have 5: "BatchCommit ?b \<in> set (trace (snd ?R))" by blast
  from mem have "i \<in> fst ` set ?b" by (rule image_eqI [rotated]) simp
  then have 6: "i \<in> dom (batch_commit st ?b)"
    by (simp add: dom_batch_commit)
  have 7: "distinct (map fst ?b) \<longrightarrow> batch_commit st ?b i = Some (stored e k r)"
    using mem by (simp add: batch_commit_distinct)
  have 8: "\<forall>m. refill (e\<lparr>MAX_VALID_GOLD_PRICE := m\<rparr>) fromDate toDate s = refill e fromDate toDate s"
    by (simp add: refill_threshold)
  from 1 2 i mem 3 4 5 6 7 8 show ?thesis by blast
qed

text \<open>
  The provider itself reports 520,000,000: published, staged and committed.
\<close>

theorem provider_outliers_unchecked_witness:
  "quote ''2026-01-03T02:00:00.000Z'' 90100000 520000000
     \<in> set (data (snd (fetchAndSyncHistory
          (sample_env (Resolved []) (success (series 520000000)) (Resolved ()))
          ''01/01/2026'' ''05/01/2026'' idle))) \<and>
   BatchSet ''bar_20260103_090000''
     \<lparr>date = ''2026-01-03T02:00:00.000Z'', type = ''bar'', buy = 90100000, sell = 520000000,
      provider = ''SJC'', syncedAt = ''2026-01-06T08:00:00.000Z''\<rparr>
     \<in> set (trace (snd (fetchAndSyncHistory
          (sample_env (Resolved []) (success (series 520000000)) (Resolved ()))
          ''01/01/2026'' ''05/01/2026'' idle))) \<and>
   list_ex (\<lambda>ev. case ev of BatchCommit b \<Rightarrow> length b = 3 | _ \<Rightarrow> False)
     (trace (snd (fetchAndSyncHistory
          (sample_env (Resolved []) (success (series 520000000)) (Resolved ()))
          ''01/01/2026'' ''05/01/2026'' idle)))"
proof -
  let ?e = "sample_env (Resolved []) (success (series 520000000)) (Resolved ())"
  let ?r = "quote ''2026-01-03T02:00:00.000Z'' 90100000 520000000"
  have miss: "([]::HistoryItem list) = [] \<or> hasOutliers ?e []" by simp
  have mem: "?r \<in> set (series 520000000)" by (simp add: series_def)
  have out: "buy ?r > MAX_VALID_GOLD_PRICE ?e \<or> sell ?r > MAX_VALID_GOLD_PRICE ?e"
    by (simp add: quote_def sample_env_def)
  from provider_outliers_unchecked
    [OF sample_bounds sample_getDocs miss sample_provider_items mem out sample_stageable,
     of idle Map.empty]
  show ?thesis by (simp add: flow_defs sample_defs)
qed

subsection \<open>C9\<close>

text \<open>
  Claim C9 (malformed date), as amended. Let the parser reject \<open>fromDate\<close> or
  \<open>toDate\<close>, that is, let \<open>parse\<close> yield the invalid date for one of them.
  Then the invocation returns normally; its whole trace is the setting of the flag, the
  logged \<open>RangeError\<close> of the bound construction and the clearing of the flag, so
  there is no read, no remote call and no write; and the result is the one before the
  call. For the parser of the library the rejected strings are those for which
  \<open>datefns_fields\<close> gives nothing (\<open>datefns_parse_InvalidDate\<close>).
\<close>

theorem malformed_date_fails_before_io:
  assumes "lib_parse e fromDate = InvalidDate \<or> lib_parse e toDate = InvalidDate"
  shows "\<exists>evs. fetchAndSyncHistory e fromDate toDate s =
                 (Returned, s\<lparr>loading := False, trace := trace s @ evs\<rparr>) \<and>
               evs = [SetLoading True, ConsoleError (RangeError ''Invalid time value''),
                      SetLoading False] \<and>
               data (snd (fetchAndSyncHistory e fromDate toDate s)) = data s \<and>
               \<not> list_ex is_read evs \<and> \<not> list_ex is_remote evs \<and> \<not> list_ex is_write evs"
  by (simp add: fetchAndSyncHistory_def tryBlock_def bounds_invalid [OF assms]
      catchFinally_def setLoading_def emit_def)

text \<open>An ISO date where the format wants day first: the parser rejects it.\<close>

theorem malformed_date_fails_before_io_witness:
  "fetchAndSyncHistory (sample_env (Resolved (series 92100000)) (success (series 92300000)) (Resolved ()))
     ''2026-01-01'' ''05/01/2026'' shown =
   (Returned,
    \<lparr>loading = False, data = series 92100000,
     trace = [SetLoading True, ConsoleError (RangeError ''Invalid time value''),
              SetLoading False]\<rparr>)"
proof -
  let ?e = "sample_env (Resolved (series 92100000)) (success (series 92300000)) (Resolved ())"
  have bad: "lib_parse ?e ''2026-01-01'' = InvalidDate \<or> lib_parse ?e ''05/01/2026'' = InvalidDate"
    by (simp add: sample_env_def sample_parse)
  from malformed_date_fails_before_io [OF bad, of shown]
  show ?thesis by (simp add: shown_def)
qed

text \<open>
  The claim as worded, for every string that is not two digits, slash, two digits,
  slash, four digits, fails. \<open>1/1/2026\<close> is not of that form, yet the parser reads
  it as the first of January: the invocation builds the bounds, reads the store, calls
  the provider with the string as typed, and replaces the result.
\<close>

theorem malformed_date_counterexample:
  "\<not> matches_ddMMyyyy ''1/1/2026'' \<and>
   fst (fetchAndSyncHistory
          (sample_env (Resolved []) (success (series 92300000)) (Resolved ()))
          ''1/1/2026'' ''05/01/2026'' shown) = Returned \<and>
   take 4 (trace (snd (fetchAndSyncHistory
          (sample_env (Resolved []) (success (series 92300000)) (Resolved ()))
          ''1/1/2026'' ''05/01/2026'' shown))) =
     [SetLoading True,
      GetDocs ''2025-12-31T17:00:00.000Z'' ''2026-01-05T16:59:59.999Z'',
      ConsoleLog CacheMiss,
      Fetch ''/api/sjc/formatted?fromDate=1/1/2026&toDate=05/01/2026''] \<and>
   data (snd (fetchAndSyncHistory
          (sample_env (Resolved []) (success (series 92300000)) (Resolved ()))
          ''1/1/2026'' ''05/01/2026'' shown)) = series 92300000 \<and>
   data shown = series 92100000 \<and>
   list_ex is_write (trace (snd (fetchAndSyncHistory
          (sample_env (Resolved []) (success (series 92300000)) (Resolved ()))
          ''1/1/2026'' ''05/01/2026'' shown)))"
  by (simp add: matches_ddMMyyyy_def flow_defs sample_defs)

subsection \<open>C10\<close>

text \<open>
  Claim C10 (busy flag). For every environment, range and state: the first action of
  the invocation sets the busy flag; nothing is ever thrown to the caller; whenever the
  invocation returns, on whichever path, the flag is cleared and clearing it was the
  last action; and the invocation fails to return only if one of the awaited promises
  (the read, the remote call, the body of the response, the commit) never settles.
\<close>

theorem busy_flag_always_cleared:
  "\<exists>c s' evs.
     fetchAndSyncHistory e fromDate toDate s = (c, s') \<and>
     trace s' = trace s @ SetLoading True # evs \<and>
     (\<forall>err. c \<noteq> Threw err) \<and>
     (c = Returned \<longrightarrow> \<not> loading s' \<and> last (trace s') = SetLoading False) \<and>
     (c = Stalled \<longrightarrow>
        (\<exists>lo hi. lib_getDocs e lo hi = Pending) \<or>
        (\<exists>u. lib_fetch e u = Pending) \<or>
        (\<exists>u res. lib_fetch e u = Resolved res \<and> json res = Pending) \<or>
        (\<exists>b. lib_commit e b = Pending))"
proof -
  let ?T = "tryBlock e fromDate toDate (setLoading True s)"
  let ?R = "fetchAndSyncHistory e fromDate toDate s"
  have R: "?R = catchFinally ?T" by (simp add: fetchAndSyncHistory_def)
  from tryBlock_trace [of e fromDate toDate "setLoading True s"]
  obtain evs0 where evs0: "trace (snd ?T) = trace s @ SetLoading True # evs0" by auto
  have 1: "?R = (fst ?R, snd ?R)" by simp
  have 2: "trace (snd ?R) = trace s @ SetLoading True # (evs0 @ catch_events (fst ?T))"
    by (simp add: R catchFinally_snd evs0)
  have 3: "\<forall>err. fst ?R \<noteq> Threw err"
    by (simp add: R catchFinally_fst split: completion.splits)
  have 4: "fst ?R = Returned \<longrightarrow> \<not> loading (snd ?R) \<and> last (trace (snd ?R)) = SetLoading False"
    by (simp add: R catchFinally_fst catchFinally_snd catch_events_def split: completion.splits)
  have 5: "fst ?R = Stalled \<longrightarrow>
        (\<exists>lo hi. lib_getDocs e lo hi = Pending) \<or>
        (\<exists>u. lib_fetch e u = Pending) \<or>
        (\<exists>u res. lib_fetch e u = Resolved res \<and> json res = Pending) \<or>
        (\<exists>b. lib_commit e b = Pending)"
  proof
    assume "fst ?R = Stalled"
    then have "fst ?T = Stalled"
      by (simp add: R catchFinally_fst split: completion.splits)
    then show "(\<exists>lo hi. lib_getDocs e lo hi = Pending) \<or>
        (\<exists>u. lib_fetch e u = Pending) \<or>
        (\<exists>u res. lib_fetch e u = Resolved res \<and> json res = Pending) \<or>
        (\<exists>b. lib_commit e b = Pending)"
      by (rule tryBlock_Stalled)
  qed
  from 1 2 3 4 5 show ?thesis by blast
qed

theorem busy_flag_always_cleared_witness:
  "fst (fetchAndSyncHistory
          (sample_env (Resolved []) (success (series 92300000)) (Rejected (FirebaseError ''unavailable'')))
          ''01/01/2026'' ''05/01/2026'' idle) = Returned \<and>
   loading (snd (fetchAndSyncHistory
          (sample_env (Resolved []) (success (series 92300000)) (Rejected (FirebaseError ''unavailable'')))
          ''01/01/2026'' ''05/01/2026'' idle)) = False \<and>
   hd (trace (snd (fetchAndSyncHistory
          (sample_env (Resolved []) (success (series 92300000)) (Rejected (FirebaseError ''unavailable'')))
          ''01/01/2026'' ''05/01/2026'' idle))) = SetLoading True \<and>
   last (trace (snd (fetchAndSyncHistory
          (sample_env (Resolved []) (success (series 92300000)) (Rejected (FirebaseError ''unavailable'')))
          ''01/01/2026'' ''05/01/2026'' idle))) = SetLoading False"
  using busy_flag_always_cleared
    [of "sample_env (Resolved []) (success (series 92300000)) (Rejected (FirebaseError ''unavailable''))"
        "''01/01/2026''" "''05/01/2026''" idle]
  by (simp add: flow_defs sample_defs)

end
